theory Spec2Isabelle
  imports Main "HOL-Library.AList"
begin

section \<open>Python values, exceptions and outcomes\<close>

text \<open>
  The values that a request mapping carries are the JSON scalars. \<open>py_str\<close> is Python's
  \<^verbatim>\<open>str()\<close>, which an f-string applies to what it interpolates, and \<open>truthy\<close> is
  the truth value that \<^verbatim>\<open>if x:\<close> tests.
\<close>

datatype pyval = PNone | PBool bool | PInt int | PStr string

definition digit_char :: "nat \<Rightarrow> char" where
  "digit_char d = ''0123456789'' ! d"

fun str_nat :: "nat \<Rightarrow> string" where
  "str_nat n = (if n < 10 then [digit_char n] else str_nat (n div 10) @ [digit_char (n mod 10)])"

declare str_nat.simps [simp del]

definition str_int :: "int \<Rightarrow> string" where
  "str_int i = (if i < 0 then CHR ''-'' # str_nat (nat (- i)) else str_nat (nat i))"

fun py_str :: "pyval \<Rightarrow> string" where
  "py_str PNone = ''None''"
| "py_str (PBool b) = (if b then ''True'' else ''False'')"
| "py_str (PInt i) = str_int i"
| "py_str (PStr s) = s"

fun truthy :: "pyval \<Rightarrow> bool" where
  "truthy PNone = False"
| "truthy (PBool b) = b"
| "truthy (PInt i) = (i \<noteq> 0)"
| "truthy (PStr s) = (s \<noteq> [])"

text \<open>
  A \<^verbatim>\<open>dict\<close> with string keys. \<open>d[k]\<close> raises \<^verbatim>\<open>KeyError\<close> on a missing key,
  \<open>d.get(k)\<close> gives \<^verbatim>\<open>None\<close>.
\<close>

type_synonym pydict = "string \<rightharpoonup> pyval"

definition py_get :: "pydict \<Rightarrow> string \<Rightarrow> pyval" where
  "py_get d k = (case d k of None \<Rightarrow> PNone | Some v \<Rightarrow> v)"

text \<open>
  The exceptions that the code meets. \<^verbatim>\<open>GithubException\<close> (with its HTTP status) is what
  PyGithub raises for a failed API call; \<^verbatim>\<open>HTTPError\<close> is what
  \<^verbatim>\<open>requests.Response.raise_for_status\<close> raises and \<^verbatim>\<open>ConnectionError\<close> what the
  transport raises; neither is a subclass of \<^verbatim>\<open>GithubException\<close>, and nor are
  \<^verbatim>\<open>KeyError\<close>, \<^verbatim>\<open>StopIteration\<close> and \<^verbatim>\<open>IndexError\<close> of Python itself. All of them are
  subclasses of \<^verbatim>\<open>Exception\<close>. \<^verbatim>\<open>sys.exit(n)\<close> is the outcome \<open>Exit n\<close>, which no
  \<^verbatim>\<open>except Exception\<close> clause catches.
\<close>

datatype exn =
    GithubException int
  | HTTPError int
  | ConnectionError
  | KeyError string
  | StopIteration
  | IndexError

fun is_GithubException :: "exn \<Rightarrow> bool" where
  "is_GithubException (GithubException s) = True"
| "is_GithubException _ = False"

fun is_Exception :: "exn \<Rightarrow> bool" where
  "is_Exception _ = True"

fun status :: "exn \<Rightarrow> int" where
  "status (GithubException s) = s"
| "status (HTTPError s) = s"
| "status _ = 0"

datatype 'a outcome = Return 'a | Raise exn | Exit int

text \<open>
  A method is a function from the world before the call to its outcome and the world after it.
  \<open>seq\<close> is sequencing of statements, \<open>try_except m c h\<close> is
  \<^verbatim>\<open>try: m except C as e: h(e)\<close> for the class of exceptions \<open>c\<close>.
\<close>

type_synonym ('a, 'w) io = "'w \<Rightarrow> 'a outcome \<times> 'w"

definition ret :: "'a \<Rightarrow> ('a, 'w) io" where
  "ret x w = (Return x, w)"

definition raise :: "exn \<Rightarrow> ('a, 'w) io" where
  "raise e w = (Raise e, w)"

definition sys_exit :: "int \<Rightarrow> ('a, 'w) io" where
  "sys_exit n w = (Exit n, w)"

definition seq :: "('a, 'w) io \<Rightarrow> ('a \<Rightarrow> ('b, 'w) io) \<Rightarrow> ('b, 'w) io" where
  "seq m f w =
     (case m w of
        (Return x, w') \<Rightarrow> f x w'
      | (Raise e, w') \<Rightarrow> (Raise e, w')
      | (Exit n, w') \<Rightarrow> (Exit n, w'))"

definition try_except :: "('a, 'w) io \<Rightarrow> (exn \<Rightarrow> bool) \<Rightarrow> (exn \<Rightarrow> ('a, 'w) io) \<Rightarrow> ('a, 'w) io" where
  "try_except m c h w =
     (case m w of
        (Raise e, w') \<Rightarrow> (if c e then h e w' else (Raise e, w'))
      | r \<Rightarrow> r)"

definition py_getitem :: "pydict \<Rightarrow> string \<Rightarrow> (pyval, 'w) io" where
  "py_getitem d k = (case d k of None \<Rightarrow> raise (KeyError k) | Some v \<Rightarrow> ret v)"

datatype level = Debug | Info | Warning | Error

section \<open>The descriptor of a request\<close>

text \<open>The allow-list of \<^verbatim>\<open>create_update_pr\<close> (source lines 62 to 80).\<close>

definition json_fields :: "string list" where
  "json_fields =
    [''github_repo'',
     ''repo_description'',
     ''base_template'',
     ''jira_project_keys'',
     ''github_project_visibility'',
     ''product'',
     ''github_project_teams_write'',
     ''github_projects_teams_admin'',
     ''github_project_branch_protection_restricted_teams'',
     ''prod_alerts_severity_label'',
     ''nonprod_alerts_severity_label'',
     ''slack_channel_nonprod_release_notify'',
     ''slack_channel_prod_release_notify'',
     ''slack_channel_security_scans_notify'',
     ''requester_name'',
     ''requester_email'',
     ''requester_team'']"

text \<open>
  Line 82: \<^verbatim>\<open>{key: request.get(key) for key in json_fields if key in request}\<close>, a
  dict in the order of \<open>json_fields\<close>.
\<close>

definition request_json_of :: "pydict \<Rightarrow> (string \<times> pyval) list" where
  "request_json_of request =
     [(key, py_get request key). key \<leftarrow> json_fields, request key \<noteq> None]"

text \<open>Line 47: \<^verbatim>\<open>f'REQ_{request["id"]}_{request.get("github_repo")}'\<close>.\<close>

definition branch_name_of :: "pyval \<Rightarrow> pydict \<Rightarrow> string" where
  "branch_name_of request_id request =
     ''REQ_'' @ py_str request_id @ ''_'' @ py_str (py_get request ''github_repo'')"

section \<open>Calls to the outside, their trace and their failures\<close>

text \<open>
  GitHub, the HTTP transport and the clock are not part of the program. Every call that a
  method makes to them is an \<open>event\<close>; the world records the events in \<open>trace\<close>, in
  the order of the calls. \<open>faults\<close> is the environment's choice of failures:
  \<open>faults w c k = Some e\<close> makes the call \<open>c\<close> raise \<open>e\<close>, without effect, when \<open>k\<close>
  identical calls were made before it.

  The text of a file written by the program is kept symbolically: \<open>Json_dumps d n\<close> stands
  for \<^verbatim>\<open>json.dumps(d, indent=n)\<close>. The sha of a file is the hash of its text, kept as
  \<open>Blob_sha\<close> of the text. Log messages are recorded by their level.
\<close>

datatype file_text = Json_dumps "(string \<times> pyval) list" nat | Verbatim string

datatype sha = Blob_sha file_text | Commit_sha nat

datatype event =
    Get_branches
  | Get_branch string
  | Create_git_ref string sha
  | Get_contents string string
  | Update_file string string file_text sha string
  | Create_file string string file_text string
  | Get_pulls string string string string
  | Create_pull string string string string
  | Enable_automerge nat string
  | Get_workflows
  | Get_runs_count nat
  | Get_runs_page nat nat
  | Delete_run nat
  | Http_post string "(string \<times> string) list" "(string \<times> pyval) list"
  | Http_get string "(string \<times> string) list"
  | Http_put string "(string \<times> string) list"
  | Session_get_repo string
  | Org_get_repo string
  | Repo_create_file string string string string
  | Repo_edit string string
  | Sleep nat
  | Log level

record env =
  faults :: "event \<Rightarrow> nat \<Rightarrow> exn option"
  trace :: "event list"

definition api :: "event \<Rightarrow> ('a, 'm env_scheme) io \<Rightarrow> ('a, 'm env_scheme) io" where
  "api c body w =
     (let w1 = w\<lparr>trace := trace w @ [c]\<rparr>
      in case faults w c (count_list (trace w) c) of
           Some e \<Rightarrow> (Raise e, w1)
         | None \<Rightarrow> body w1)"

definition log :: "level \<Rightarrow> (unit, 'm env_scheme) io" where
  "log l w = (Return (), w\<lparr>trace := trace w @ [Log l]\<rparr>)"

definition sleep :: "nat \<Rightarrow> (unit, 'm env_scheme) io" where
  "sleep n w = (Return (), w\<lparr>trace := trace w @ [Sleep n]\<rparr>)"

section \<open>The bootstrap repository as the methods see it\<close>

text \<open>
  The state behind \<^verbatim>\<open>self.bootstrap_repo\<close>: the branches with the commit each points to,
  the tree of every commit (a path is a file or a directory), and the pull requests.
\<close>

datatype node = Blob file_text | Tree "string list"

text \<open>What \<^verbatim>\<open>get_contents\<close> returns: one file (its path and sha), or the list of a directory.\<close>

datatype contents = ContentFile string sha | ContentList "string list"

record pull =
  pr_number :: nat
  pr_title :: string
  pr_body :: string
  pr_head :: string
  pr_base :: string
  pr_state :: string
  pr_automerge :: "string option"

text \<open>The fields of \<^verbatim>\<open>self\<close> that the methods read.\<close>

record session = env +
  github_org :: string
  github_access_token :: string

record bootstrap = session +
  branches :: "(string \<times> nat) list"
  commits :: "nat \<Rightarrow> (string \<rightharpoonup> node)"
  next_commit :: nat
  pulls :: "pull list"
  next_number :: nat

definition self_github_org :: "(string, 'm session_scheme) io" where
  "self_github_org w = (Return (github_org w), w)"

definition get_branches :: "(string list, bootstrap) io" where
  "get_branches = api Get_branches (\<lambda>w. (Return (map fst (branches w)), w))"

definition get_branch :: "string \<Rightarrow> (sha, bootstrap) io" where
  "get_branch name = api (Get_branch name) (\<lambda>w.
     case map_of (branches w) name of
       None \<Rightarrow> (Raise (GithubException 404), w)
     | Some c \<Rightarrow> (Return (Commit_sha c), w))"

definition create_git_ref :: "string \<Rightarrow> sha \<Rightarrow> (unit, bootstrap) io" where
  "create_git_ref ref s = api (Create_git_ref ref s) (\<lambda>w.
     case s of
       Blob_sha t \<Rightarrow> (Raise (GithubException 422), w)
     | Commit_sha c \<Rightarrow>
         (if take 11 ref \<noteq> ''refs/heads/'' \<or> map_of (branches w) (drop 11 ref) \<noteq> None
          then (Raise (GithubException 422), w)
          else (Return (), w\<lparr>branches := branches w @ [(drop 11 ref, c)]\<rparr>)))"

definition get_contents :: "string \<Rightarrow> string \<Rightarrow> (contents, bootstrap) io" where
  "get_contents path ref = api (Get_contents path ref) (\<lambda>w.
     case map_of (branches w) ref of
       None \<Rightarrow> (Raise (GithubException 404), w)
     | Some c \<Rightarrow>
         (case commits w c path of
            None \<Rightarrow> (Raise (GithubException 404), w)
          | Some (Blob t) \<Rightarrow> (Return (ContentFile path (Blob_sha t)), w)
          | Some (Tree names) \<Rightarrow> (Return (ContentList names), w)))"

text \<open>A write to a branch is a new commit whose tree has the file, and the branch moves to it.\<close>

definition commit_file :: "string \<Rightarrow> nat \<Rightarrow> string \<Rightarrow> file_text \<Rightarrow> bootstrap \<Rightarrow> bootstrap" where
  "commit_file branch c path t w =
     w\<lparr>branches := AList.update branch (next_commit w) (branches w),
       commits := (commits w)(next_commit w := (commits w c)(path \<mapsto> Blob t)),
       next_commit := next_commit w + 1\<rparr>"

definition update_file :: "string \<Rightarrow> string \<Rightarrow> file_text \<Rightarrow> sha \<Rightarrow> string \<Rightarrow> (unit, bootstrap) io" where
  "update_file path message t s branch = api (Update_file path message t s branch) (\<lambda>w.
     case map_of (branches w) branch of
       None \<Rightarrow> (Raise (GithubException 404), w)
     | Some c \<Rightarrow>
         (case commits w c path of
            Some (Blob old) \<Rightarrow>
              (if s = Blob_sha old then (Return (), commit_file branch c path t w)
               else (Raise (GithubException 409), w))
          | _ \<Rightarrow> (Raise (GithubException 404), w)))"

definition create_file :: "string \<Rightarrow> string \<Rightarrow> file_text \<Rightarrow> string \<Rightarrow> (unit, bootstrap) io" where
  "create_file path message t branch = api (Create_file path message t branch) (\<lambda>w.
     case map_of (branches w) branch of
       None \<Rightarrow> (Raise (GithubException 404), w)
     | Some c \<Rightarrow>
         (case commits w c path of
            None \<Rightarrow> (Return (), commit_file branch c path t w)
          | Some n \<Rightarrow> (Raise (GithubException 422), w)))"

text \<open>
  The pull requests that \<^verbatim>\<open>get_pulls(state, sort, base, head)\<close> lists, oldest first; the
  head filter has the form \<^verbatim>\<open>org:branch\<close>.
\<close>

definition matching_pulls :: "bootstrap \<Rightarrow> string \<Rightarrow> string \<Rightarrow> string \<Rightarrow> pull list" where
  "matching_pulls w state base_ref head_label =
     filter (\<lambda>p. pr_state p = state \<and> pr_base p = base_ref \<and>
                 github_org w @ '':'' @ pr_head p = head_label) (pulls w)"

definition get_pulls :: "string \<Rightarrow> string \<Rightarrow> string \<Rightarrow> string \<Rightarrow> (pull list, bootstrap) io" where
  "get_pulls state sort_by base_ref head_label = api (Get_pulls state sort_by base_ref head_label)
     (\<lambda>w. (Return (matching_pulls w state base_ref head_label), w))"

text \<open>GitHub refuses a second open pull request for the same head and base.\<close>

definition create_pull :: "string \<Rightarrow> string \<Rightarrow> string \<Rightarrow> string \<Rightarrow> (pull, bootstrap) io" where
  "create_pull title_text body_text head_ref base_ref =
     api (Create_pull title_text body_text head_ref base_ref) (\<lambda>w.
       if matching_pulls w ''open'' base_ref (github_org w @ '':'' @ head_ref) \<noteq> []
       then (Raise (GithubException 422), w)
       else (let pr = \<lparr>pr_number = next_number w, pr_title = title_text, pr_body = body_text,
                       pr_head = head_ref, pr_base = base_ref, pr_state = ''open'',
                       pr_automerge = None\<rparr>
             in (Return pr, w\<lparr>pulls := pulls w @ [pr], next_number := next_number w + 1\<rparr>)))"

definition enable_automerge :: "pull \<Rightarrow> string \<Rightarrow> (unit, bootstrap) io" where
  "enable_automerge pr merge_method = api (Enable_automerge (pr_number pr) merge_method) (\<lambda>w.
     (Return (),
      w\<lparr>pulls := map (\<lambda>p. if pr_number p = pr_number pr
                           then p\<lparr>pr_automerge := Some merge_method\<rparr> else p) (pulls w)\<rparr>))"

section \<open>\<^verbatim>\<open>GithubProject.create_update_pr\<close>\<close>

text \<open>Lines 51 to 57: create the branch from the tip of \<^verbatim>\<open>main\<close> when it is not listed.\<close>

definition ensure_branch :: "string \<Rightarrow> (unit, bootstrap) io" where
  "ensure_branch branch_name =
     seq get_branches (\<lambda>all_branches.
       if branch_name \<notin> set all_branches then
         seq (log Info) (\<lambda>_.
         seq (get_branch ''main'') (\<lambda>main_sha.
           create_git_ref (''refs/heads/'' @ branch_name) main_sha))
       else ret ())"

text \<open>
  Lines 84 to 122: read the descriptor and update it, or create it after a 404. The
  \<^verbatim>\<open>try\<close> block covers the read and the update; its value here is the flag
  \<^verbatim>\<open>create_file\<close> as it stands after the block.
\<close>

definition write_descriptor :: "pydict \<Rightarrow> string \<Rightarrow> (unit, bootstrap) io" where
  "write_descriptor request branch_name =
     (let request_json_file = branch_name @ ''.json'';
          request_json = request_json_of request
      in
      seq (try_except
             (seq (get_contents (''requests/'' @ request_json_file) branch_name) (\<lambda>json_file.
                case json_file of
                  ContentFile path file_sha \<Rightarrow>
                    seq (update_file path
                           (''Updating '' @ request_json_file @ '' with details for '' @
                              py_str (py_get request ''github_repo''))
                           (Json_dumps request_json 2) file_sha branch_name)
                        (\<lambda>_. ret False)
                | ContentList entries \<Rightarrow> ret False))
             is_GithubException
             (\<lambda>e. if status e = 404 then ret True
                  else seq (log Error) (\<lambda>_. sys_exit 1)))
          (\<lambda>create_file_flag.
             if create_file_flag then
               try_except
                 (seq (log Debug) (\<lambda>_.
                    create_file (''requests/'' @ request_json_file)
                      (''Creating requests/'' @ request_json_file @ '' with details for '' @
                         py_str (py_get request ''github_repo''))
                      (Json_dumps request_json 2) branch_name))
                 is_GithubException
                 (\<lambda>e. seq (log Error) (\<lambda>_. sys_exit 1))
             else ret ()))"

text \<open>Lines 124 to 151: find the open pull request of the branch, or raise a new one.\<close>

definition raise_or_find_pr :: "pydict \<Rightarrow> string \<Rightarrow> (pydict, bootstrap) io" where
  "raise_or_find_pr request branch_name =
     seq self_github_org (\<lambda>org.
     seq (get_pulls ''open'' ''created'' ''main'' (org @ '':'' @ branch_name)) (\<lambda>github_pulls.
     seq (log Debug) (\<lambda>_.
       if length github_pulls = 0 then
         seq (log Info) (\<lambda>_.
         seq (create_pull
                (''Project request for '' @ py_str (py_get request ''github_repo''))
                (''Project request raised for '' @ py_str (py_get request ''github_repo''))
                branch_name ''main'') (\<lambda>pr.
         seq (enable_automerge pr ''MERGE'') (\<lambda>_.
           ret (request(''request_github_pr_number'' \<mapsto> PInt (int (pr_number pr)),
                        ''output_status'' \<mapsto> PStr ''New'',
                        ''request_github_pr_status'' \<mapsto> PStr ''Raised'')))))
       else
         seq (log Info) (\<lambda>_.
           ret (request(''request_github_pr_number'' \<mapsto> PInt (int (pr_number (github_pulls ! 0))),
                        ''output_status'' \<mapsto> PStr ''Updated'',
                        ''request_github_pr_status'' \<mapsto> PStr ''Updated''))))))"

definition create_update_pr :: "pydict \<Rightarrow> (pydict, bootstrap) io" where
  "create_update_pr request =
     seq (py_getitem request ''id'') (\<lambda>request_id.
       let branch_name = branch_name_of request_id request in
       seq (ensure_branch branch_name) (\<lambda>_.
       seq (write_descriptor request branch_name) (\<lambda>_.
         raise_or_find_pr request branch_name)))"

section \<open>\<^verbatim>\<open>GithubProject.delete_old_workflows\<close>\<close>

text \<open>
  The workflows of the bootstrap repository, each with the ids of its runs in the order in
  which the API lists them at the moment of a request.
\<close>

record workflow =
  wf_id :: nat
  wf_name :: string
  wf_runs :: "nat list"

record actions = env +
  workflows :: "workflow list"

definition get_workflows :: "(workflow list, actions) io" where
  "get_workflows = api Get_workflows (\<lambda>w. (Return (workflows w), w))"

definition runs_now :: "actions \<Rightarrow> nat \<Rightarrow> nat list option" where
  "runs_now w i = map_option wf_runs (find (\<lambda>x. wf_id x = i) (workflows w))"

text \<open>
  \<^verbatim>\<open>get_runs()\<close> returns PyGithub's \<^verbatim>\<open>PaginatedList\<close> and sends no request. The list
  object holds the elements fetched so far and the page to fetch next, if any; pages hold 30
  runs and are counted from 0 here (GitHub counts them from 1). \<^verbatim>\<open>totalCount\<close> is a
  request of its own, answered with the number of runs. A page is fetched when an index
  beyond the fetched elements is asked for, and it is cut from the runs as they are at that
  moment; GitHub names a next page when there are runs after the page.
\<close>

record paginated =
  pl_workflow :: nat
  pl_elements :: "nat list"
  pl_next :: "nat option"

definition get_runs :: "workflow \<Rightarrow> paginated" where
  "get_runs wflow = \<lparr>pl_workflow = wf_id wflow, pl_elements = [], pl_next = Some 0\<rparr>"

definition total_count :: "paginated \<Rightarrow> (nat, actions) io" where
  "total_count pl = api (Get_runs_count (pl_workflow pl)) (\<lambda>w.
     case runs_now w (pl_workflow pl) of
       None \<Rightarrow> (Raise (GithubException 404), w)
     | Some rs \<Rightarrow> (Return (length rs), w))"

definition fetch_next_page :: "paginated \<Rightarrow> nat \<Rightarrow> (paginated, actions) io" where
  "fetch_next_page pl k = api (Get_runs_page (pl_workflow pl) k) (\<lambda>w.
     case runs_now w (pl_workflow pl) of
       None \<Rightarrow> (Raise (GithubException 404), w)
     | Some rs \<Rightarrow>
         (Return (pl\<lparr>pl_elements := pl_elements pl @ take 30 (drop (30 * k) rs),
                      pl_next := (if 30 * (k + 1) < length rs then Some (k + 1) else None)\<rparr>),
          w))"

text \<open>
  What bounds the fetch loop: nothing when no next page is named, and otherwise the runs from
  the next page on, plus one.
\<close>

definition to_fetch :: "paginated \<Rightarrow> actions \<Rightarrow> nat" where
  "to_fetch pl w =
     (case pl_next pl of
        None \<Rightarrow> 0
      | Some k \<Rightarrow> 1 + (length (case runs_now w (pl_workflow pl) of None \<Rightarrow> [] | Some rs \<Rightarrow> rs)
                       - 30 * k))"

lemma fetch_next_page_result:
  assumes "fetch_next_page pl k w = (Return pl', w')" and "pl_next pl = Some k"
  shows "workflows w' = workflows w \<and> pl_workflow pl' = pl_workflow pl
       \<and> to_fetch pl' w' < to_fetch pl w
       \<and> length (pl_elements pl') + to_fetch pl' w' \<le> length (pl_elements pl) + to_fetch pl w"
  using assms
  by (auto simp add: fetch_next_page_def api_def Let_def to_fetch_def runs_now_def
      split: option.splits if_splits)

text \<open>
  \<^verbatim>\<open>PaginatedList.__fetchToIndex\<close>:
  \<^verbatim>\<open>while len(self.__elements) <= index and self._couldGrow(): self._grow()\<close>.
\<close>

function fetch_to_index :: "nat \<Rightarrow> paginated \<Rightarrow> actions \<Rightarrow> paginated outcome \<times> actions" where
  "fetch_to_index index pl w =
     (case pl_next pl of
        None \<Rightarrow> (Return pl, w)
      | Some k \<Rightarrow>
          if length (pl_elements pl) \<le> index then
            (case fetch_next_page pl k w of
               (Return pl', w') \<Rightarrow> fetch_to_index index pl' w'
             | (Raise e, w') \<Rightarrow> (Raise e, w')
             | (Exit n, w') \<Rightarrow> (Exit n, w'))
          else (Return pl, w))"
  by pat_completeness auto
termination
  apply (relation "measure (\<lambda>(index, pl, w). to_fetch pl w)")
   apply simp
  apply (auto dest: fetch_next_page_result [OF sym])
  done

declare fetch_to_index.simps [simp del]

lemma fetch_to_index_result:
  "fetch_to_index index pl w = (Return pl', w') \<Longrightarrow>
   workflows w' = workflows w \<and> pl_workflow pl' = pl_workflow pl
   \<and> length (pl_elements pl') + to_fetch pl' w' \<le> length (pl_elements pl) + to_fetch pl w"
proof (induction index pl w rule: fetch_to_index.induct)
  case (1 index pl w)
  show ?case
  proof (cases "pl_next pl")
    case None
    with "1.prems" show ?thesis by (simp add: fetch_to_index.simps [of index pl w])
  next
    case (Some k)
    show ?thesis
    proof (cases "length (pl_elements pl) \<le> index")
      case False
      with Some "1.prems" show ?thesis by (simp add: fetch_to_index.simps [of index pl w])
    next
      case True
      obtain r w1 where f: "fetch_next_page pl k w = (r, w1)"
        by (cases "fetch_next_page pl k w")
      with Some True "1.prems" obtain pl1 where r: "r = Return pl1"
        and rest: "fetch_to_index index pl1 w1 = (Return pl', w')"
        by (cases r) (auto simp add: fetch_to_index.simps [of index pl w])
      from f r have f': "fetch_next_page pl k w = (Return pl1, w1)" by simp
      note step = fetch_next_page_result [OF f' Some]
      note ih = "1.IH" [OF Some True f [symmetric] r rest]
      from step ih show ?thesis by simp
    qed
  qed
qed

text \<open>
  \<^verbatim>\<open>WorkflowRun.delete\<close> sends the DELETE and returns whether the status was 204; it does
  not raise for a run that is gone.
\<close>

definition run_delete :: "nat \<Rightarrow> (bool, actions) io" where
  "run_delete r = api (Delete_run r) (\<lambda>w.
     (Return (\<exists>x \<in> set (workflows w). r \<in> set (wf_runs x)),
      w\<lparr>workflows := map (\<lambda>x. x\<lparr>wf_runs := removeAll r (wf_runs x)\<rparr>) (workflows w)\<rparr>))"

lemma find_map_runs:
  "find (\<lambda>x. wf_id x = i) (map (\<lambda>x. x\<lparr>wf_runs := f (wf_runs x)\<rparr>) xs) =
   map_option (\<lambda>x. x\<lparr>wf_runs := f (wf_runs x)\<rparr>) (find (\<lambda>x. wf_id x = i) xs)"
  by (induction xs) auto

lemma run_delete_result:
  assumes "run_delete r w = (Return b, w')"
  shows "to_fetch pl w' \<le> to_fetch pl w"
proof -
  have "length (removeAll r rs) \<le> length rs" for rs :: "nat list"
    by (simp add: removeAll_filter_not_eq)
  then have "length (case runs_now w' i of None \<Rightarrow> [] | Some rs \<Rightarrow> rs)
      \<le> length (case runs_now w i of None \<Rightarrow> [] | Some rs \<Rightarrow> rs)" for i
    using assms
    by (auto simp add: run_delete_def api_def Let_def runs_now_def find_map_runs
        split: option.splits)
  then have le: "length (case runs_now w' (pl_workflow pl) of None \<Rightarrow> [] | Some rs \<Rightarrow> rs) - 30 * k
      \<le> length (case runs_now w (pl_workflow pl) of None \<Rightarrow> [] | Some rs \<Rightarrow> rs) - 30 * k"
    for k by (rule diff_le_mono)
  show ?thesis
  proof (cases "pl_next pl")
    case None
    then show ?thesis by (simp add: to_fetch_def)
  next
    case (Some k)
    with le [of k] show ?thesis by (simp add: to_fetch_def)
  qed
qed

text \<open>
  Lines 166 and 167: \<^verbatim>\<open>for run in workflow_runs[12:]: run.delete()\<close>. The slice of a
  \<^verbatim>\<open>PaginatedList\<close> iterates by index: while the list has an element at the index or could
  grow, it yields \<^verbatim>\<open>list[index]\<close>, which fetches up to the index and then indexes the
  fetched elements, raising \<^verbatim>\<open>IndexError\<close> when the element is still not there; the body
  of the loop deletes the run before the next index is asked for.
\<close>

function iterate_slice :: "nat \<Rightarrow> paginated \<Rightarrow> actions \<Rightarrow> unit outcome \<times> actions" where
  "iterate_slice index pl w =
     (if index < length (pl_elements pl) \<or> pl_next pl \<noteq> None then
        (case fetch_to_index index pl w of
           (Return pl', w') \<Rightarrow>
             if index < length (pl_elements pl') then
               (case run_delete (pl_elements pl' ! index) w' of
                  (Return deleted, w'') \<Rightarrow> iterate_slice (index + 1) pl' w''
                | (Raise e, w'') \<Rightarrow> (Raise e, w'')
                | (Exit n, w'') \<Rightarrow> (Exit n, w''))
             else (Raise IndexError, w')
         | (Raise e, w') \<Rightarrow> (Raise e, w')
         | (Exit n, w') \<Rightarrow> (Exit n, w'))
      else (Return (), w))"
  by pat_completeness auto
termination
proof (relation "measure (\<lambda>(index, pl, w). length (pl_elements pl) + to_fetch pl w + 1 - index)",
    goal_cases)
  case 1
  show ?case by simp
next
  case (2 index pl w x1 w' pl' x2 w'' deleted)
  from 2 have f: "fetch_to_index index pl w = (Return pl', w')"
    and d: "run_delete (pl_elements pl' ! index) w' = (Return deleted, w'')"
    and i: "index < length (pl_elements pl')"
    by simp_all
  from fetch_to_index_result [OF f] run_delete_result [OF d, of pl'] i
  show ?case by (simp, arith)
qed

declare iterate_slice.simps [simp del]

definition delete_old_workflows :: "(unit, actions) io" where
  "delete_old_workflows =
     try_except
       (seq get_workflows (\<lambda>all_workflows.
          let bootstrap_workflow =
                filter (\<lambda>wflow. wf_name wflow = ''Bootstrap - poll for repo requests'') all_workflows
          in
          if bootstrap_workflow \<noteq> [] then
            (let workflow_runs = get_runs (bootstrap_workflow ! 0) in
             seq (total_count workflow_runs) (\<lambda>run_qty.
               if run_qty > 12 then
                 seq (log Debug) (\<lambda>_. iterate_slice 12 workflow_runs)
               else ret ()))
          else ret ()))
       is_GithubException
       (\<lambda>e. log Warning)"

section \<open>\<^verbatim>\<open>GithubProject.create_repo\<close>\<close>

text \<open>
  \<open>post_status\<close> is the HTTP status with which GitHub answers a POST to a URL.
  \<^verbatim>\<open>self.repo\<close> is kept as the full name of the repository it was loaded for.
\<close>

record provisioner = session +
  post_status :: "string \<Rightarrow> int"

definition request_headers :: "string \<Rightarrow> (string \<times> string) list" where
  "request_headers token =
     [(''Authorization'', ''token '' @ token),
      (''Accept'', ''application/vnd.github.v3+json'')]"

definition requests_post ::
  "string \<Rightarrow> (string \<times> string) list \<Rightarrow> (string \<times> pyval) list \<Rightarrow> (int, provisioner) io" where
  "requests_post url headers data =
     api (Http_post url headers data) (\<lambda>w. (Return (post_status w url), w))"

definition session_get_repo :: "string \<Rightarrow> (string, 'm env_scheme) io" where
  "session_get_repo full_name = api (Session_get_repo full_name) (\<lambda>w. (Return full_name, w))"

definition repo_create_file :: "string \<Rightarrow> string \<Rightarrow> string \<Rightarrow> string \<Rightarrow> (unit, 'm env_scheme) io" where
  "repo_create_file repo path message content =
     api (Repo_create_file repo path message content) (\<lambda>w. (Return (), w))"

definition repo_edit :: "string \<Rightarrow> string \<Rightarrow> (unit, 'm env_scheme) io" where
  "repo_edit repo default_branch = api (Repo_edit repo default_branch) (\<lambda>w. (Return (), w))"

text \<open>
  Lines 188 to 266. A key of \<^verbatim>\<open>project_params\<close> is read where the source first reads it;
  the later reads of the same key cannot raise, and use the value read.
\<close>

definition create_from_template :: "pydict \<Rightarrow> pyval \<Rightarrow> (string, provisioner) io" where
  "create_from_template project_params template_repo =
     seq (\<lambda>w. (Return (request_headers (github_access_token w)), w)) (\<lambda>headers.
     seq (py_getitem project_params ''github_org'') (\<lambda>org.
     seq (py_getitem project_params ''github_repo'') (\<lambda>repo_name.
     seq (py_getitem project_params ''description'') (\<lambda>description.
       let data = [(''owner'', org), (''name'', repo_name), (''description'', description)] in
       seq (requests_post
              (''https://api.github.com/repos/'' @ py_str org @ ''/'' @ py_str template_repo @
                 ''/generate'')
              headers data) (\<lambda>status_code.
       seq (if status_code = 201 then log Info
            else seq (log Error) (\<lambda>_. sys_exit 1)) (\<lambda>_.
         session_get_repo (py_str org @ ''/'' @ py_str repo_name)))))))"

definition create_fresh :: "pydict \<Rightarrow> (string, provisioner) io" where
  "create_fresh project_params =
     seq (\<lambda>w. (Return (request_headers (github_access_token w)), w)) (\<lambda>headers.
     seq (py_getitem project_params ''github_repo'') (\<lambda>repo_name.
     seq (py_getitem project_params ''description'') (\<lambda>description.
       let data = [(''name'', repo_name), (''description'', description)] in
       seq (py_getitem project_params ''github_org'') (\<lambda>org.
       seq (requests_post (''https://api.github.com/orgs/'' @ py_str org @ ''/repos'')
              headers data) (\<lambda>status_code.
       seq (if status_code = 201 then log Info
            else seq (log Error) (\<lambda>_. sys_exit 1)) (\<lambda>_.
       seq (session_get_repo (py_str org @ ''/'' @ py_str repo_name)) (\<lambda>repo.
       seq (try_except
              (repo_create_file repo ''README.md'' ''commit''
                 (''# '' @ py_str repo_name @ [CHR 0x0A] @ py_str description))
              is_GithubException
              (\<lambda>e. seq (log Error) (\<lambda>_. sys_exit 1))) (\<lambda>_.
         ret repo))))))))"

text \<open>
  Lines 273 to 280, the body of the \<^verbatim>\<open>while\<close> loop: from \<^verbatim>\<open>(repo_ready, check_count)\<close>
  to their values after one round.
\<close>

definition poll_round :: "string \<Rightarrow> bool \<times> nat \<Rightarrow> (bool \<times> nat, 'm env_scheme) io" where
  "poll_round repo rc =
     seq (sleep 5) (\<lambda>_.
       try_except
         (seq (log Debug) (\<lambda>_.
          seq (repo_edit repo ''main'') (\<lambda>_.
            ret (True, snd rc))))
         is_Exception
         (\<lambda>e. ret (fst rc, snd rc + 1)))"

text \<open>Lines 272 to 280, the \<^verbatim>\<open>while not repo_ready and check_count < 10\<close> loop.\<close>

function poll :: "string \<Rightarrow> bool \<times> nat \<Rightarrow> 'm env_scheme \<Rightarrow> (bool \<times> nat) outcome \<times> 'm env_scheme" where
  "poll repo rc w =
     (if \<not> fst rc \<and> snd rc < 10 then
        (case poll_round repo rc w of
           (Return rc', w') \<Rightarrow> poll repo rc' w'
         | (Raise e, w') \<Rightarrow> (Raise e, w')
         | (Exit n, w') \<Rightarrow> (Exit n, w'))
      else (Return rc, w))"
  by pat_completeness auto
termination
  apply (relation "measure (\<lambda>(repo, rc, w). (if fst rc then 0 else 1) + (10 - snd rc))")
   apply simp
  apply (auto simp: poll_round_def seq_def try_except_def sleep_def log_def repo_edit_def
      api_def ret_def Let_def split: option.splits if_splits)
  done

declare poll.simps [simp del]

text \<open>Lines 268 to 286: the poll and the exit when the repository never became ready.\<close>

definition wait_until_ready :: "string \<Rightarrow> (unit, 'm env_scheme) io" where
  "wait_until_ready repo =
     seq (log Debug) (\<lambda>_.
     seq (poll repo (False, 0)) (\<lambda>rc.
       if \<not> fst rc then seq (log Error) (\<lambda>_. sys_exit 1)
       else ret ()))"

definition create_repo :: "pydict \<Rightarrow> (unit, provisioner) io" where
  "create_repo project_params =
     seq (py_getitem project_params ''github_template_repo'') (\<lambda>template_repo.
     seq (if truthy template_repo then create_from_template project_params template_repo
          else create_fresh project_params) (\<lambda>repo.
       wait_until_ready repo))"

section \<open>\<^verbatim>\<open>GithubProject.add_repo_to_runner_group\<close>\<close>

text \<open>
  The organisation as the method sees it: its repositories with their ids, the status of the
  answer to the GET of the runner groups and the \<^verbatim>\<open>runner_groups\<close> entry of its JSON body
  (each group a dict), and the status of the answer to a PUT. \<^verbatim>\<open>org.get_repo\<close> returns a
  repository object, here \<open>Some\<close> of its id, or raises \<^verbatim>\<open>GithubException\<close> with status
  404 when there is no such repository; \<open>None\<close> stands for a falsy return value.
\<close>

record runner_org = session +
  org_repos :: "(string \<times> nat) list"
  get_status :: int
  runner_groups_entry :: "(string \<times> pyval) list list option"
  put_status :: "string \<Rightarrow> int"

definition org_get_repo :: "string \<Rightarrow> (nat option, runner_org) io" where
  "org_get_repo repo_name = api (Org_get_repo repo_name) (\<lambda>w.
     case map_of (org_repos w) repo_name of
       None \<Rightarrow> (Raise (GithubException 404), w)
     | Some repo_id \<Rightarrow> (Return (Some repo_id), w))"

definition requests_get ::
  "string \<Rightarrow> (string \<times> string) list \<Rightarrow> (int \<times> (string \<times> pyval) list list option, runner_org) io" where
  "requests_get url headers =
     api (Http_get url headers) (\<lambda>w. (Return (get_status w, runner_groups_entry w), w))"

definition requests_put :: "string \<Rightarrow> (string \<times> string) list \<Rightarrow> (int, runner_org) io" where
  "requests_put url headers = api (Http_put url headers) (\<lambda>w. (Return (put_status w url), w))"

text \<open>\<^verbatim>\<open>Response.raise_for_status\<close> raises \<^verbatim>\<open>HTTPError\<close> for a 4xx or 5xx status.\<close>

definition raise_for_status :: "int \<Rightarrow> (unit, 'w) io" where
  "raise_for_status status_code =
     (if 400 \<le> status_code \<and> status_code < 600 then raise (HTTPError status_code) else ret ())"

text \<open>
  Line 308: \<^verbatim>\<open>next(g for g in groups if g['name'] == runner_group_name)\<close>, the first
  group with the name; \<^verbatim>\<open>next\<close> without a default raises \<^verbatim>\<open>StopIteration\<close> when the
  generator is exhausted.
\<close>

fun next_group :: "(string \<times> pyval) list list \<Rightarrow> string \<Rightarrow> ((string \<times> pyval) list, 'w) io" where
  "next_group [] runner_group_name = raise StopIteration"
| "next_group (g # groups) runner_group_name =
     (case map_of g ''name'' of
        None \<Rightarrow> raise (KeyError ''name'')
      | Some v \<Rightarrow> if v = PStr runner_group_name then ret g
                  else next_group groups runner_group_name)"

definition dict_getitem :: "(string \<times> pyval) list \<Rightarrow> string \<Rightarrow> (pyval, 'w) io" where
  "dict_getitem d k = (case map_of d k of None \<Rightarrow> raise (KeyError k) | Some v \<Rightarrow> ret v)"

text \<open>
  Lines 288 to 334. Each \<^verbatim>\<open>try\<close> block yields \<open>Inl b\<close> where the source returns \<open>b\<close>
  from the method, and \<open>Inr\<close> where it goes on to the next statement. A dict is truthy when
  it is not empty.
\<close>

definition add_repo_to_runner_group :: "string \<Rightarrow> string \<Rightarrow> (bool, runner_org) io" where
  "add_repo_to_runner_group repo_name runner_group_name =
     seq (org_get_repo repo_name) (\<lambda>repo.
       case repo of
         None \<Rightarrow> seq (log Error) (\<lambda>_. ret False)
       | Some repo_id \<Rightarrow>
           seq (\<lambda>w. (Return (request_headers (github_access_token w)), w)) (\<lambda>headers.
           seq self_github_org (\<lambda>org.
           seq (try_except
                  (seq (requests_get
                          (''https://api.github.com/orgs/'' @ org @ ''/actions/runner-groups'')
                          headers) (\<lambda>r.
                   seq (raise_for_status (fst r)) (\<lambda>_.
                     let groups = (case snd r of None \<Rightarrow> [] | Some gs \<Rightarrow> gs) in
                     seq (next_group groups runner_group_name) (\<lambda>runner_group.
                       if runner_group \<noteq> [] then
                         seq (dict_getitem runner_group ''id'') (\<lambda>runner_group_id.
                           ret (Inr runner_group_id))
                       else seq (log Error) (\<lambda>_. ret (Inl False))))))
                  is_GithubException
                  (\<lambda>e. seq (log Error) (\<lambda>_. ret (Inl False)))) (\<lambda>found.
             case found of
               Inl b \<Rightarrow> ret b
             | Inr runner_group_id \<Rightarrow>
                 seq (try_except
                        (seq (requests_put
                                (''https://api.github.com/orgs/'' @ org @
                                   ''/actions/runner-groups/'' @ py_str runner_group_id @
                                   ''/repositories/'' @ str_nat repo_id)
                                headers) (\<lambda>r.
                         seq (raise_for_status r) (\<lambda>_.
                         seq (log Info) (\<lambda>_. ret (Inr ())))))
                        is_GithubException
                        (\<lambda>e. seq (log Error) (\<lambda>_. ret (Inl False)))) (\<lambda>bound.
                   case bound of
                     Inl b \<Rightarrow> ret b
                   | Inr _ \<Rightarrow> ret True)))))"

section \<open>What is observed of a run\<close>

text \<open>The texts that the calls of a trace write to files, in the order of the writes.\<close>

definition written_texts :: "event list \<Rightarrow> file_text list" where
  "written_texts evs =
     concat (map (\<lambda>ev. case ev of
                          Update_file p m t s b \<Rightarrow> [t]
                        | Create_file p m t b \<Rightarrow> [t]
                        | _ \<Rightarrow> []) evs)"

text \<open>
  One round of the readiness poll as it shows in the trace, the seconds that the calls of a
  trace slept, and the test that the attempt number \<open>k\<close> (from 0) of a poll that starts in
  the world \<open>w\<close> finds the repository not ready.
\<close>

definition round_events :: "string \<Rightarrow> event list" where
  "round_events repo = [Sleep 5, Log Debug, Repo_edit repo ''main'']"

definition slept :: "event list \<Rightarrow> nat" where
  "slept evs = sum_list (map (\<lambda>ev. case ev of Sleep n \<Rightarrow> n | _ \<Rightarrow> 0) evs)"

definition not_ready :: "'m env_scheme \<Rightarrow> string \<Rightarrow> nat \<Rightarrow> bool" where
  "not_ready w repo k =
     (faults w (Repo_edit repo ''main'') (count_list (trace w) (Repo_edit repo ''main'') + k)
        \<noteq> None)"

text \<open>A method only appends to the trace.\<close>

definition grows :: "('a, 'm env_scheme) io \<Rightarrow> bool" where
  "grows m = (\<forall>w. \<exists>evs. trace (snd (m w)) = trace w @ evs)"

text \<open>The URL and the JSON data of the creation request of \<^verbatim>\<open>create_repo\<close>, for both paths.\<close>

definition creation_url :: "pyval \<Rightarrow> pyval \<Rightarrow> string" where
  "creation_url template_repo org =
     (if truthy template_repo
      then ''https://api.github.com/repos/'' @ py_str org @ ''/'' @ py_str template_repo @
             ''/generate''
      else ''https://api.github.com/orgs/'' @ py_str org @ ''/repos'')"

definition creation_data :: "pyval \<Rightarrow> pyval \<Rightarrow> pyval \<Rightarrow> pyval \<Rightarrow> (string \<times> pyval) list" where
  "creation_data template_repo org repo_name description =
     (if truthy template_repo
      then [(''owner'', org), (''name'', repo_name), (''description'', description)]
      else [(''name'', repo_name), (''description'', description)])"

text \<open>Concrete inputs on which the theorems below are run.\<close>

definition demo_params :: pydict where
  "demo_params =
     [''github_template_repo'' \<mapsto> PStr ''template-lib'', ''github_org'' \<mapsto> PStr ''acme'',
      ''github_repo'' \<mapsto> PStr ''demo'', ''description'' \<mapsto> PStr ''A demo'']"

definition demo_provisioner :: "int \<Rightarrow> nat \<Rightarrow> provisioner" where
  "demo_provisioner code failures =
     \<lparr>faults = (\<lambda>c k. case c of
                         Repo_edit r b \<Rightarrow> if k < failures then Some (GithubException 404) else None
                       | _ \<Rightarrow> None),
      trace = [], github_org = ''acme'', github_access_token = ''t0k'',
      post_status = (\<lambda>url. code)\<rparr>"

definition demo_created :: "nat \<Rightarrow> provisioner" where
  "demo_created failures =
     (demo_provisioner 201 failures)
       \<lparr>trace :=
          [Http_post ''https://api.github.com/repos/acme/template-lib/generate''
             (request_headers ''t0k'')
             [(''owner'', PStr ''acme''), (''name'', PStr ''demo''),
              (''description'', PStr ''A demo'')],
           Log Info, Session_get_repo ''acme/demo'']\<rparr>"

text \<open>The runs that the calls of a trace delete, in the order of the deletions.\<close>

definition deleted_runs :: "event list \<Rightarrow> nat list" where
  "deleted_runs evs = concat (map (\<lambda>ev. case ev of Delete_run r \<Rightarrow> [r] | _ \<Rightarrow> []) evs)"

definition demo_actions :: "nat list \<Rightarrow> actions" where
  "demo_actions runs =
     \<lparr>faults = (\<lambda>c k. None), trace = [],
      workflows = [\<lparr>wf_id = 1, wf_name = ''CI'', wf_runs = [100, 101]\<rparr>,
                   \<lparr>wf_id = 2, wf_name = ''Bootstrap - poll for repo requests'',
                    wf_runs = runs\<rparr>]\<rparr>"

definition forty_five_runs :: "nat list" where
  "forty_five_runs =
     [45, 44, 43, 42, 41, 40, 39, 38, 37, 36, 35, 34, 33, 32, 31, 30, 29, 28, 27, 26, 25,
      24, 23, 22, 21, 20, 19, 18, 17, 16, 15, 14, 13, 12, 11, 10, 9, 8, 7, 6, 5, 4, 3, 2,
      1]"

definition demo_org :: "int \<Rightarrow> (string \<times> pyval) list list \<Rightarrow> int \<Rightarrow> runner_org" where
  "demo_org get_code groups put_code =
     \<lparr>faults = (\<lambda>c k. None), trace = [], github_org = ''acme'', github_access_token = ''t0k'',
      org_repos = [(''demo'', 42)], get_status = get_code, runner_groups_entry = Some groups,
      put_status = (\<lambda>url. put_code)\<rparr>"

text \<open>
  What is observed of the bootstrap repository: the path of the descriptor of a branch, the
  node at a path on the tip of a branch, the open pull requests from a branch into
  \<^verbatim>\<open>main\<close>, the calls of a trace that create a pull request or set its auto-merge, and
  the text and commit messages of the descriptor as \<^verbatim>\<open>create_update_pr\<close> writes them.
\<close>

definition descriptor_path :: "string \<Rightarrow> string" where
  "descriptor_path branch_name = ''requests/'' @ branch_name @ ''.json''"

definition node_at :: "bootstrap \<Rightarrow> string \<Rightarrow> string \<Rightarrow> node option" where
  "node_at w branch path =
     (case map_of (branches w) branch of None \<Rightarrow> None | Some c \<Rightarrow> commits w c path)"

definition open_pulls :: "bootstrap \<Rightarrow> string \<Rightarrow> pull list" where
  "open_pulls w branch_name =
     matching_pulls w ''open'' ''main'' (github_org w @ '':'' @ branch_name)"

definition pull_calls :: "event list \<Rightarrow> event list" where
  "pull_calls evs =
     filter (\<lambda>ev. case ev of Create_pull t b h m \<Rightarrow> True | Enable_automerge n m \<Rightarrow> True
                 | _ \<Rightarrow> False) evs"

definition descriptor_text :: "pydict \<Rightarrow> file_text" where
  "descriptor_text request = Json_dumps (request_json_of request) 2"

definition update_message :: "pydict \<Rightarrow> string \<Rightarrow> string" where
  "update_message request branch_name =
     ''Updating '' @ branch_name @ ''.json'' @ '' with details for '' @
       py_str (py_get request ''github_repo'')"

definition create_message :: "pydict \<Rightarrow> string \<Rightarrow> string" where
  "create_message request branch_name =
     ''Creating requests/'' @ branch_name @ ''.json'' @ '' with details for '' @
       py_str (py_get request ''github_repo'')"

text \<open>A request and some states of the bootstrap repository on which the theorems are run.\<close>

definition demo_request :: pydict where
  "demo_request =
     [''id'' \<mapsto> PInt 7, ''github_repo'' \<mapsto> PStr ''demo'', ''product'' \<mapsto> PStr ''DPS'',
      ''colour'' \<mapsto> PStr ''red'']"

definition demo_bootstrap ::
  "(event \<Rightarrow> nat \<Rightarrow> exn option) \<Rightarrow> (string \<times> nat) list \<Rightarrow> (string \<rightharpoonup> node) \<Rightarrow> bootstrap" where
  "demo_bootstrap fs bs tree =
     \<lparr>faults = fs, trace = [], github_org = ''acme'', github_access_token = ''t0k'',
      branches = bs, commits = (\<lambda>c. tree), next_commit = 1, pulls = [], next_number = 1\<rparr>"

definition fresh_bootstrap :: bootstrap where
  "fresh_bootstrap = demo_bootstrap (\<lambda>c k. None) [(''main'', 0)] Map.empty"

definition file_bootstrap :: bootstrap where
  "file_bootstrap =
     demo_bootstrap (\<lambda>c k. None) [(''main'', 0), (''REQ_7_demo'', 0)]
       [''requests/REQ_7_demo.json'' \<mapsto> Blob (Verbatim ''{}'')]"

definition directory_bootstrap :: bootstrap where
  "directory_bootstrap =
     demo_bootstrap (\<lambda>c k. None) [(''main'', 0)] [''requests/REQ_7_demo.json'' \<mapsto> Tree []]"

definition unreachable_bootstrap :: bootstrap where
  "unreachable_bootstrap =
     demo_bootstrap (\<lambda>c k. case c of Get_contents p r \<Rightarrow> Some ConnectionError | _ \<Rightarrow> None)
       [(''main'', 0)] Map.empty"

definition failing_bootstrap :: bootstrap where
  "failing_bootstrap =
     demo_bootstrap (\<lambda>c k. case c of Get_contents p r \<Rightarrow> Some (GithubException 500) | _ \<Rightarrow> None)
       [(''main'', 0), (''REQ_7_demo'', 0)] Map.empty"

section \<open>Sequencing and calls\<close>

lemma seq_Return: "m w = (Return x, w') \<Longrightarrow> seq m f w = f x w'"
  by (simp add: seq_def)

lemma seq_Raise: "m w = (Raise e, w') \<Longrightarrow> seq m f w = (Raise e, w')"
  by (simp add: seq_def)

lemma seq_Exit: "m w = (Exit n, w') \<Longrightarrow> seq m f w = (Exit n, w')"
  by (simp add: seq_def)

text \<open>The definitions that a run on a concrete input unfolds.\<close>

lemmas run_defs =
  create_update_pr_def ensure_branch_def write_descriptor_def raise_or_find_pr_def
  py_getitem_def seq_def try_except_def ret_def raise_def sys_exit_def Let_def
  get_branches_def get_branch_def create_git_ref_def get_contents_def update_file_def
  create_file_def commit_file_def get_pulls_def create_pull_def enable_automerge_def
  matching_pulls_def self_github_org_def api_def log_def
  branch_name_of_def request_json_of_def json_fields_def py_get_def
  str_int_def str_nat.simps digit_char_def

lemmas demo_defs =
  demo_request_def demo_bootstrap_def fresh_bootstrap_def file_bootstrap_def
  directory_bootstrap_def unreachable_bootstrap_def failing_bootstrap_def

lemma demo_branch: "branch_name_of (PInt 7) demo_request = ''REQ_7_demo''"
  by (simp add: run_defs demo_defs)

section \<open>The descriptor and the texts written to files\<close>

lemma distinct_json_fields: "distinct json_fields"
  by (simp add: json_fields_def)

lemma length_json_fields: "length json_fields = 17"
  by (simp add: json_fields_def)

lemma map_of_comprehension:
  "distinct ks \<Longrightarrow>
   map_of [(key, py_get d key). key \<leftarrow> ks, d key \<noteq> None] k =
     (if k \<in> set ks then d k else None)"
  by (induction ks) (auto simp: py_get_def)

lemma keys_comprehension:
  "map fst [(key, py_get d key). key \<leftarrow> ks, d key \<noteq> None] = filter (\<lambda>key. d key \<noteq> None) ks"
  by (induction ks) auto

lemma written_texts_append [simp]:
  "written_texts (xs @ ys) = written_texts xs @ written_texts ys"
  by (simp add: written_texts_def)

lemma written_texts_Nil [simp]: "written_texts [] = []"
  by (simp add: written_texts_def)

lemma written_texts_Cons:
  "written_texts (ev # evs) =
     (case ev of Update_file p m t s b \<Rightarrow> [t] | Create_file p m t b \<Rightarrow> [t] | _ \<Rightarrow> []) @
     written_texts evs"
  by (simp add: written_texts_def)

lemma ensure_branch_written:
  "written_texts (trace (snd (ensure_branch b w))) = written_texts (trace w)"
  by (simp add: ensure_branch_def seq_def get_branches_def api_def Let_def log_def get_branch_def
      create_git_ref_def ret_def written_texts_Cons split: option.splits sha.splits)

lemma write_descriptor_written:
  "set (written_texts (trace (snd (write_descriptor request b w))))
     \<subseteq> set (written_texts (trace w)) \<union> {Json_dumps (request_json_of request) 2}"
  by (auto simp add: write_descriptor_def seq_def try_except_def get_contents_def update_file_def
      create_file_def api_def Let_def log_def ret_def sys_exit_def commit_file_def
      written_texts_Cons
      split: option.splits node.splits exn.splits if_splits)

lemma raise_or_find_pr_written:
  "written_texts (trace (snd (raise_or_find_pr request b w))) = written_texts (trace w)"
  by (simp add: raise_or_find_pr_def seq_def self_github_org_def get_pulls_def api_def Let_def
     log_def create_pull_def enable_automerge_def ret_def written_texts_Cons split: option.splits)

lemma create_update_pr_written:
  "set (written_texts (trace (snd (create_update_pr request w))))
     \<subseteq> set (written_texts (trace w)) \<union> {Json_dumps (request_json_of request) 2}"
proof (cases "request ''id''")
  case None
  then show ?thesis
    by (auto simp add: create_update_pr_def py_getitem_def seq_def raise_def)
next
  case (Some rid)
  define b where "b = branch_name_of rid request"
  obtain r1 w1 where e1: "ensure_branch b w = (r1, w1)"
    by (cases "ensure_branch b w")
  obtain r2 w2 where e2: "write_descriptor request b w1 = (r2, w2)"
    by (cases "write_descriptor request b w1")
  obtain r3 w3 where e3: "raise_or_find_pr request b w2 = (r3, w3)"
    by (cases "raise_or_find_pr request b w2")
  have t1: "written_texts (trace w1) = written_texts (trace w)"
    using ensure_branch_written [of b w] e1 by simp
  have t2: "set (written_texts (trace w2))
      \<subseteq> set (written_texts (trace w1)) \<union> {Json_dumps (request_json_of request) 2}"
    using write_descriptor_written [of request b w1] e2 by simp
  have t3: "written_texts (trace w3) = written_texts (trace w2)"
    using raise_or_find_pr_written [of request b w2] e3 by simp
  have "snd (create_update_pr request w) \<in> {w1, w2, w3}"
    using Some e1 e2 e3
    by (simp add: create_update_pr_def py_getitem_def seq_def ret_def b_def Let_def
        split: outcome.splits)
  with t1 t2 t3 show ?thesis by auto
qed

text \<open>
  C3. The descriptor that \<^verbatim>\<open>create_update_pr\<close> builds has, for every key, the request's
  value when the key is one of the 17 keys of the allow-list and the request has it, and no
  entry otherwise: a key that the request lacks is not padded, and a key outside the
  allow-list never appears. Its keys are those allow-list keys that the request has, in the
  order of the allow-list, and every text that a run of \<^verbatim>\<open>create_update_pr\<close> writes to a
  file is the \<^verbatim>\<open>json.dumps\<close> of this descriptor with indent 2.
\<close>

theorem descriptor_allow_list:
  "map_of (request_json_of request) key =
     (if key \<in> set json_fields then request key else None)
   \<and> map fst (request_json_of request) = filter (\<lambda>k. request k \<noteq> None) json_fields
   \<and> distinct json_fields \<and> length json_fields = 17
   \<and> set (written_texts (trace (snd (create_update_pr request w))))
       \<subseteq> set (written_texts (trace w)) \<union> {Json_dumps (request_json_of request) 2}"
  unfolding request_json_of_def
  using map_of_comprehension [OF distinct_json_fields, of request key]
    keys_comprehension [of request json_fields] distinct_json_fields length_json_fields
    create_update_pr_written [of request w]
  by (simp add: request_json_of_def)

theorem descriptor_allow_list_witness:
  "map_of (request_json_of [''id'' \<mapsto> PInt 7, ''github_repo'' \<mapsto> PStr ''demo'',
                            ''colour'' \<mapsto> PStr ''red''])
     ''github_repo'' = Some (PStr ''demo'')
   \<and> map_of (request_json_of [''id'' \<mapsto> PInt 7, ''github_repo'' \<mapsto> PStr ''demo'',
                              ''colour'' \<mapsto> PStr ''red''])
     ''colour'' = None"
  using descriptor_allow_list
    [of "[''id'' \<mapsto> PInt 7, ''github_repo'' \<mapsto> PStr ''demo'', ''colour'' \<mapsto> PStr ''red'']"
       "''github_repo''"]
    descriptor_allow_list
    [of "[''id'' \<mapsto> PInt 7, ''github_repo'' \<mapsto> PStr ''demo'', ''colour'' \<mapsto> PStr ''red'']"
       "''colour''"]
  by (simp add: json_fields_def)

section \<open>The readiness poll\<close>

lemma slept_append: "slept (xs @ ys) = slept xs + slept ys"
  by (simp add: slept_def)

lemma slept_Nil [simp]: "slept [] = 0"
  by (simp add: slept_def)

lemma slept_Cons [simp]:
  "slept (ev # evs) = (case ev of Sleep n \<Rightarrow> n | _ \<Rightarrow> 0) + slept evs"
  by (simp add: slept_def)

lemma poll_round_fail:
  "faults w (Repo_edit repo ''main'') (count_list (trace w) (Repo_edit repo ''main'')) = Some e \<Longrightarrow>
   poll_round repo (False, c) w = (Return (False, c + 1), w\<lparr>trace := trace w @ round_events repo\<rparr>)"
  by (simp add: poll_round_def seq_def sleep_def try_except_def log_def repo_edit_def api_def
      ret_def Let_def round_events_def)

lemma poll_round_ok:
  "faults w (Repo_edit repo ''main'') (count_list (trace w) (Repo_edit repo ''main'')) = None \<Longrightarrow>
   poll_round repo (False, c) w = (Return (True, c), w\<lparr>trace := trace w @ round_events repo\<rparr>)"
  by (simp add: poll_round_def seq_def sleep_def try_except_def log_def repo_edit_def api_def
      ret_def Let_def round_events_def)

lemma count_round [simp]:
  "count_list (round_events repo) (Repo_edit repo ''main'') = 1"
  by (simp add: round_events_def)

lemma poll_failing:
  "\<forall>k<m. faults w (Repo_edit repo ''main'') (count_list (trace w) (Repo_edit repo ''main'') + k) \<noteq> None \<Longrightarrow>
   c + m \<le> 10 \<Longrightarrow>
   poll repo (False, c) w =
     poll repo (False, c + m) (w\<lparr>trace := trace w @ concat (replicate m (round_events repo))\<rparr>)"
proof (induction m arbitrary: c w)
  case 0
  then show ?case by simp
next
  case (Suc m)
  let ?E = "Repo_edit repo ''main''"
  let ?w1 = "w\<lparr>trace := trace w @ round_events repo\<rparr>"
  from Suc.prems(1) obtain e where e: "faults w ?E (count_list (trace w) ?E) = Some e"
    by (metis add.right_neutral not_None_eq zero_less_Suc)
  have step: "poll repo (False, c) w = poll repo (False, c + 1) ?w1"
    using Suc.prems(2) poll_round_fail [OF e, of c]
    by (subst poll.simps) simp
  have "\<forall>k<m. faults ?w1 ?E (count_list (trace ?w1) ?E + k) \<noteq> None"
    using Suc.prems(1) by (auto simp: dest: spec [of _ "Suc _"])
  from Suc.IH [OF this, of "c + 1"] Suc.prems(2)
  have "poll repo (False, c + 1) ?w1 =
     poll repo (False, c + 1 + m) (?w1\<lparr>trace := trace ?w1 @ concat (replicate m (round_events repo))\<rparr>)"
    by simp
  with step show ?case by simp
qed

lemma concat_replicate_snoc: "concat (replicate j r) @ r = concat (replicate (Suc j) r)"
  by (induction j) simp_all

lemma poll_success:
  assumes "\<forall>k<j. faults w (Repo_edit repo ''main'') (count_list (trace w) (Repo_edit repo ''main'') + k) \<noteq> None"
    and "faults w (Repo_edit repo ''main'') (count_list (trace w) (Repo_edit repo ''main'') + j) = None"
    and "j < 10"
  shows "poll repo (False, 0) w =
     (Return (True, j), w\<lparr>trace := trace w @ concat (replicate (Suc j) (round_events repo))\<rparr>)"
proof -
  let ?E = "Repo_edit repo ''main''"
  let ?wj = "w\<lparr>trace := trace w @ concat (replicate j (round_events repo))\<rparr>"
  have c: "count_list (trace ?wj) ?E = count_list (trace w) ?E + j"
    by (induction j) simp_all
  have "poll repo (False, 0) w = poll repo (False, j) ?wj"
    using poll_failing [OF assms(1), of 0] assms(3) by simp
  also have "\<dots> = poll repo (True, j) (?wj\<lparr>trace := trace ?wj @ round_events repo\<rparr>)"
    using assms(2,3) c poll_round_ok [of ?wj repo j]
    by (subst poll.simps) simp
  also have "\<dots> = (Return (True, j), ?wj\<lparr>trace := trace ?wj @ round_events repo\<rparr>)"
    by (subst poll.simps) simp
  finally show ?thesis by (simp add: concat_replicate_snoc del: replicate_Suc)
qed

lemma poll_exhausted:
  assumes "\<forall>k<10. faults w (Repo_edit repo ''main'') (count_list (trace w) (Repo_edit repo ''main'') + k) \<noteq> None"
  shows "poll repo (False, 0) w =
     (Return (False, 10), w\<lparr>trace := trace w @ concat (replicate 10 (round_events repo))\<rparr>)"
proof -
  have "poll repo (False, 0) w =
      poll repo (False, 10) (w\<lparr>trace := trace w @ concat (replicate 10 (round_events repo))\<rparr>)"
    using poll_failing [OF assms, of 0] by simp
  then show ?thesis by (subst (asm) (2) poll.simps) simp
qed

lemma slept_rounds [simp]: "slept (concat (replicate m (round_events repo))) = 5 * m"
  by (induction m) (simp_all add: slept_def round_events_def)

lemma count_rounds [simp]:
  "count_list (concat (replicate m (round_events repo))) (Repo_edit repo ''main'') = m"
  by (induction m) simp_all

text \<open>
  C5. Once the creation part of \<^verbatim>\<open>create_repo\<close> has returned the repository, leaving the
  world \<open>w1\<close>, the poll sleeps 5 seconds before every attempt to set the default branch to
  \<^verbatim>\<open>main\<close> and treats every exception of an attempt as not ready. If attempt number
  \<open>j\<close> (from 0, below 10) is the first that succeeds, \<^verbatim>\<open>create_repo\<close> returns normally
  after \<open>j + 1\<close> attempts, at most 10, having slept \<open>5 * (j + 1)\<close> seconds. If none of the
  first 10 attempts succeeds, it logs an error and exits with code 1 after exactly 10 attempts,
  having slept 50 seconds, which is at least 45.
\<close>

theorem readiness_poll_bounds:
  assumes "project_params ''github_template_repo'' = Some t"
    and "(if truthy t then create_from_template project_params t
          else create_fresh project_params) w = (Return repo, w1)"
  shows "((\<forall>k<j. not_ready w1 repo k) \<and> \<not> not_ready w1 repo j \<and> j < 10 \<longrightarrow>
            (\<exists>w2. create_repo project_params w = (Return (), w2)
               \<and> trace w2 = trace w1 @ [Log Debug] @ concat (replicate (j + 1) (round_events repo))
               \<and> count_list (trace w2) (Repo_edit repo ''main'') =
                   count_list (trace w1) (Repo_edit repo ''main'') + (j + 1)
               \<and> j + 1 \<le> 10
               \<and> slept (trace w2) = slept (trace w1) + 5 * (j + 1)))
       \<and> ((\<forall>k<10. not_ready w1 repo k) \<longrightarrow>
            (\<exists>w2. create_repo project_params w = (Exit 1, w2)
               \<and> trace w2 = trace w1 @ [Log Debug] @ concat (replicate 10 (round_events repo)) @
                   [Log Error]
               \<and> count_list (trace w2) (Repo_edit repo ''main'') =
                   count_list (trace w1) (Repo_edit repo ''main'') + 10
               \<and> slept (trace w2) = slept (trace w1) + 50
               \<and> 45 \<le> slept (trace w2) - slept (trace w1)))"
proof -
  let ?E = "Repo_edit repo ''main''"
  let ?w1 = "w1\<lparr>trace := trace w1 @ [Log Debug]\<rparr>"
  have start: "create_repo project_params w = wait_until_ready repo w1"
    using assms by (simp add: create_repo_def py_getitem_def seq_def ret_def)
  have cnt: "count_list (trace ?w1) ?E = count_list (trace w1) ?E"
    by simp
  have first: "\<exists>w2. create_repo project_params w = (Return (), w2)
               \<and> trace w2 = trace w1 @ [Log Debug] @ concat (replicate (j + 1) (round_events repo))
               \<and> count_list (trace w2) ?E = count_list (trace w1) ?E + (j + 1)
               \<and> j + 1 \<le> 10
               \<and> slept (trace w2) = slept (trace w1) + 5 * (j + 1)"
    if a: "(\<forall>k<j. not_ready w1 repo k) \<and> \<not> not_ready w1 repo j \<and> j < 10"
  proof -
    have "poll repo (False, 0) ?w1 =
        (Return (True, j), ?w1\<lparr>trace := trace ?w1 @ concat (replicate (Suc j) (round_events repo))\<rparr>)"
      by (rule poll_success) (use a cnt in \<open>simp_all add: not_ready_def\<close>)
    then have "wait_until_ready repo w1 =
        (Return (), ?w1\<lparr>trace := trace ?w1 @ concat (replicate (Suc j) (round_events repo))\<rparr>)"
      by (simp add: wait_until_ready_def seq_def log_def ret_def)
    with start a show ?thesis
      by (simp add: slept_append del: replicate_Suc)
  qed
  have never: "\<exists>w2. create_repo project_params w = (Exit 1, w2)
               \<and> trace w2 = trace w1 @ [Log Debug] @ concat (replicate 10 (round_events repo)) @
                   [Log Error]
               \<and> count_list (trace w2) ?E = count_list (trace w1) ?E + 10
               \<and> slept (trace w2) = slept (trace w1) + 50
               \<and> 45 \<le> slept (trace w2) - slept (trace w1)"
    if a: "\<forall>k<10. not_ready w1 repo k"
  proof -
    have "poll repo (False, 0) ?w1 =
        (Return (False, 10), ?w1\<lparr>trace := trace ?w1 @ concat (replicate 10 (round_events repo))\<rparr>)"
      by (rule poll_exhausted) (use a cnt in \<open>simp add: not_ready_def\<close>)
    then have "wait_until_ready repo w1 =
        (Exit 1, ?w1\<lparr>trace := trace ?w1 @ concat (replicate 10 (round_events repo)) @ [Log Error]\<rparr>)"
      by (simp add: wait_until_ready_def seq_def log_def ret_def sys_exit_def)
    with start show ?thesis
      by (simp add: slept_append del: replicate_Suc)
  qed
  from first never show ?thesis by blast
qed

theorem readiness_poll_bounds_witness:
  "fst (create_repo demo_params (demo_provisioner 201 2)) = Return ()
   \<and> count_list (trace (snd (create_repo demo_params (demo_provisioner 201 2))))
        (Repo_edit ''acme/demo'' ''main'') = 3
   \<and> slept (trace (snd (create_repo demo_params (demo_provisioner 201 2)))) = 15
   \<and> fst (create_repo demo_params (demo_provisioner 201 10)) = Exit 1
   \<and> count_list (trace (snd (create_repo demo_params (demo_provisioner 201 10))))
        (Repo_edit ''acme/demo'' ''main'') = 10
   \<and> slept (trace (snd (create_repo demo_params (demo_provisioner 201 10)))) = 50"
proof -
  have p: "demo_params ''github_template_repo'' = Some (PStr ''template-lib'')"
    by (simp add: demo_params_def)
  have c: "(if truthy (PStr ''template-lib'')
            then create_from_template demo_params (PStr ''template-lib'')
            else create_fresh demo_params) (demo_provisioner 201 n)
           = (Return ''acme/demo'', demo_created n)" for n
    by (simp add: create_from_template_def demo_params_def demo_provisioner_def demo_created_def
        py_getitem_def seq_def ret_def requests_post_def api_def Let_def log_def
        session_get_repo_def)
  have third: "(\<forall>k<2. not_ready (demo_created 2) ''acme/demo'' k)
      \<and> \<not> not_ready (demo_created 2) ''acme/demo'' 2 \<and> (2::nat) < 10"
    by (simp add: not_ready_def demo_created_def demo_provisioner_def)
  have never: "\<forall>k<10. not_ready (demo_created 10) ''acme/demo'' k"
    by (simp add: not_ready_def demo_created_def demo_provisioner_def)
  have s: "slept (trace (demo_created n)) = 0"
    "count_list (trace (demo_created n)) (Repo_edit ''acme/demo'' ''main'') = 0" for n
    by (simp_all add: demo_created_def)
  from readiness_poll_bounds [OF p c [of 2], where j = 2] third
    readiness_poll_bounds [OF p c [of 10], where j = 0] never s
  show ?thesis by auto
qed

section \<open>The creation request\<close>

lemma growsI: "(\<And>w. \<exists>evs. trace (snd (m w)) = trace w @ evs) \<Longrightarrow> grows m"
  by (simp add: grows_def)

lemma growsD: "grows m \<Longrightarrow> \<exists>evs. trace (snd (m w)) = trace w @ evs"
  by (simp add: grows_def)

lemma grows_ret [simp]: "grows (ret x)"
  by (simp add: grows_def ret_def)

lemma grows_raise [simp]: "grows (raise e)"
  by (simp add: grows_def raise_def)

lemma grows_sys_exit [simp]: "grows (sys_exit n)"
  by (simp add: grows_def sys_exit_def)

lemma grows_log [simp]: "grows (log l)"
  by (simp add: grows_def log_def)

lemma grows_sleep [simp]: "grows (sleep n)"
  by (simp add: grows_def sleep_def)

lemma grows_seq: "grows m \<Longrightarrow> (\<And>x. grows (f x)) \<Longrightarrow> grows (seq m f)"
proof (rule growsI)
  fix w
  assume m: "grows m" and f: "\<And>x. grows (f x)"
  obtain r w1 where mw: "m w = (r, w1)" by (cases "m w")
  from growsD [OF m, of w] mw obtain evs where evs: "trace w1 = trace w @ evs" by auto
  show "\<exists>evs. trace (snd (seq m f w)) = trace w @ evs"
  proof (cases r)
    case (Return x)
    from growsD [OF f, of x w1] obtain evs' where "trace (snd (f x w1)) = trace w1 @ evs'" by auto
    with Return mw evs show ?thesis by (simp add: seq_def)
  next
    case (Raise e)
    with mw evs show ?thesis by (simp add: seq_def)
  next
    case (Exit n)
    with mw evs show ?thesis by (simp add: seq_def)
  qed
qed

lemma grows_try_except: "grows m \<Longrightarrow> (\<And>e. grows (h e)) \<Longrightarrow> grows (try_except m c h)"
proof (rule growsI)
  fix w
  assume m: "grows m" and h: "\<And>e. grows (h e)"
  obtain r w1 where mw: "m w = (r, w1)" by (cases "m w")
  from growsD [OF m, of w] mw obtain evs where evs: "trace w1 = trace w @ evs" by auto
  show "\<exists>evs. trace (snd (try_except m c h w)) = trace w @ evs"
  proof (cases r)
    case (Raise e)
    from growsD [OF h, of e w1] obtain evs' where "trace (snd (h e w1)) = trace w1 @ evs'" by auto
    with Raise mw evs show ?thesis by (simp add: try_except_def)
  next
    case (Return x)
    with mw evs show ?thesis by (simp add: try_except_def)
  next
    case (Exit n)
    with mw evs show ?thesis by (simp add: try_except_def)
  qed
qed

lemma grows_api: "grows body \<Longrightarrow> grows (api c body)"
proof (rule growsI)
  fix w
  assume b: "grows body"
  from growsD [OF b, of "w\<lparr>trace := trace w @ [c]\<rparr>"]
  show "\<exists>evs. trace (snd (api c body w)) = trace w @ evs"
    by (auto simp: api_def Let_def split: option.splits)
qed

lemma grows_if: "grows a \<Longrightarrow> grows b \<Longrightarrow> grows (if c then a else b)"
  by simp

lemma grows_pure [simp]: "grows (\<lambda>w. (r, w))"
  by (simp add: grows_def)

lemma grows_session_get_repo [simp]: "grows (session_get_repo n)"
  unfolding session_get_repo_def by (rule grows_api) simp

lemma grows_repo_create_file [simp]: "grows (repo_create_file r p m c)"
  unfolding repo_create_file_def by (rule grows_api) simp

lemma grows_repo_edit [simp]: "grows (repo_edit r b)"
  unfolding repo_edit_def by (rule grows_api) simp

lemma grows_poll_round [simp]: "grows (poll_round repo rc)"
  unfolding poll_round_def
  by (intro grows_seq grows_try_except) simp_all

lemma poll_grows: "\<exists>evs. trace (snd (poll repo rc w)) = trace w @ evs"
proof (induction repo rc w rule: poll.induct)
  case (1 repo rc w)
  show ?case
  proof (cases "\<not> fst rc \<and> snd rc < 10")
    case False
    then show ?thesis by (subst poll.simps) auto
  next
    case True
    obtain r w1 where pr: "poll_round repo rc w = (r, w1)" by (cases "poll_round repo rc w")
    from growsD [OF grows_poll_round, of repo rc w] pr
    obtain evs where evs: "trace w1 = trace w @ evs" by auto
    show ?thesis
    proof (cases r)
      case (Return rc')
      from "1.IH" [OF True pr [symmetric] Return]
      obtain evs' where "trace (snd (poll repo rc' w1)) = trace w1 @ evs'" by auto
      with True pr Return evs show ?thesis by (subst poll.simps) simp
    next
      case (Raise e)
      with True pr evs show ?thesis by (subst poll.simps) simp
    next
      case (Exit n)
      with True pr evs show ?thesis by (subst poll.simps) simp
    qed
  qed
qed

lemma grows_poll [simp]: "grows (poll repo rc)"
  by (rule growsI) (rule poll_grows)

lemma grows_wait_until_ready [simp]: "grows (wait_until_ready repo)"
  unfolding wait_until_ready_def
  by (intro grows_seq grows_if) simp_all

text \<open>
  C9. In \<^verbatim>\<open>create_repo\<close>, on the generate-from-template path and on the plain path alike,
  when the creation request is answered with a status other than 201 the method logs an error
  and exits with code 1 at once: the trace of the call is the one POST and the log entry, with
  no second POST and nothing after it. With status 201 it does not exit there: it logs the
  success and goes on to load the repository.
\<close>

theorem create_repo_fail_fast:
  assumes "project_params ''github_template_repo'' = Some t"
    and "project_params ''github_org'' = Some org"
    and "project_params ''github_repo'' = Some name"
    and "project_params ''description'' = Some d"
    and "faults w (Http_post (creation_url t org) (request_headers (github_access_token w))
                     (creation_data t org name d))
           (count_list (trace w) (Http_post (creation_url t org)
               (request_headers (github_access_token w)) (creation_data t org name d))) = None"
  shows "(post_status w (creation_url t org) \<noteq> 201 \<longrightarrow>
            create_repo project_params w =
              (Exit 1, w\<lparr>trace := trace w @
                 [Http_post (creation_url t org) (request_headers (github_access_token w))
                    (creation_data t org name d), Log Error]\<rparr>))
       \<and> (post_status w (creation_url t org) = 201 \<longrightarrow>
            (\<exists>evs. trace (snd (create_repo project_params w)) = trace w @
                 [Http_post (creation_url t org) (request_headers (github_access_token w))
                    (creation_data t org name d), Log Info,
                  Session_get_repo (py_str org @ ''/'' @ py_str name)] @ evs))"
proof (intro conjI impI)
  assume "post_status w (creation_url t org) \<noteq> 201"
  with assms show "create_repo project_params w =
              (Exit 1, w\<lparr>trace := trace w @
                 [Http_post (creation_url t org) (request_headers (github_access_token w))
                    (creation_data t org name d), Log Error]\<rparr>)"
    by (cases "truthy t")
      (simp_all add: create_repo_def create_from_template_def create_fresh_def py_getitem_def
        seq_def ret_def requests_post_def api_def Let_def log_def sys_exit_def
        creation_url_def creation_data_def)
next
  let ?P = "Http_post (creation_url t org) (request_headers (github_access_token w))
                    (creation_data t org name d)"
  let ?w1 = "w\<lparr>trace := trace w @ [?P, Log Info]\<rparr>"
  let ?full = "py_str org @ ''/'' @ py_str name"
  let ?rest = "seq (session_get_repo ?full) (\<lambda>repo.
      seq (if truthy t then ret repo
           else seq (try_except
              (repo_create_file repo ''README.md'' ''commit''
                 (''# '' @ py_str name @ [CHR 0x0A] @ py_str d))
              is_GithubException
              (\<lambda>e. seq (log Error) (\<lambda>_. sys_exit 1))) (\<lambda>_. ret repo))
        (\<lambda>repo. wait_until_ready repo)) :: (unit, provisioner) io"
  assume ok: "post_status w (creation_url t org) = 201"
  with assms have eq: "create_repo project_params w = ?rest ?w1"
    by (cases "truthy t")
      (simp_all add: create_repo_def create_from_template_def create_fresh_def py_getitem_def
        seq_def ret_def requests_post_def api_def Let_def log_def
        creation_url_def creation_data_def split: prod.splits outcome.splits)
  have "\<exists>evs. trace (snd (?rest ?w1)) = trace ?w1 @ Session_get_repo ?full # evs"
  proof -
    let ?w2 = "?w1\<lparr>trace := trace ?w1 @ [Session_get_repo ?full]\<rparr>"
    obtain r w3 where r: "session_get_repo ?full ?w1 = (r, w3)"
      by (cases "session_get_repo ?full ?w1")
    then have w3: "w3 = ?w2" by (auto simp: session_get_repo_def api_def Let_def split: option.splits)
    let ?k = "\<lambda>repo. seq (if truthy t then ret repo
           else seq (try_except
              (repo_create_file repo ''README.md'' ''commit''
                 (''# '' @ py_str name @ [CHR 0x0A] @ py_str d))
              is_GithubException
              (\<lambda>e. seq (log Error) (\<lambda>_. sys_exit 1))) (\<lambda>_. ret repo))
        (\<lambda>repo. wait_until_ready repo) :: (unit, provisioner) io"
    have gk: "\<And>repo. grows (?k repo)"
      by (intro grows_seq grows_try_except grows_if) simp_all
    show ?thesis
    proof (cases r)
      case (Return repo)
      from growsD [OF gk, of repo ?w2] obtain evs where "trace (snd (?k repo ?w2)) = trace ?w2 @ evs"
        by blast
      with r w3 Return show ?thesis by (simp add: seq_def)
    next
      case (Raise e)
      with r w3 show ?thesis by (simp add: seq_def)
    next
      case (Exit n)
      with r w3 show ?thesis by (simp add: seq_def)
    qed
  qed
  with eq show "\<exists>evs. trace (snd (create_repo project_params w)) = trace w @
                 [?P, Log Info, Session_get_repo ?full] @ evs"
    by simp
qed

theorem create_repo_fail_fast_witness:
  "create_repo demo_params (demo_provisioner 422 0) =
     (Exit 1, (demo_provisioner 422 0)
        \<lparr>trace := [Http_post ''https://api.github.com/repos/acme/template-lib/generate''
                     (request_headers ''t0k'')
                     [(''owner'', PStr ''acme''), (''name'', PStr ''demo''),
                      (''description'', PStr ''A demo'')],
                   Log Error]\<rparr>)
   \<and> create_repo (demo_params(''github_template_repo'' \<mapsto> PStr ''''))
       (demo_provisioner 500 0) =
     (Exit 1, (demo_provisioner 500 0)
        \<lparr>trace := [Http_post ''https://api.github.com/orgs/acme/repos''
                     (request_headers ''t0k'')
                     [(''name'', PStr ''demo''), (''description'', PStr ''A demo'')],
                   Log Error]\<rparr>)
   \<and> take 3 (trace (snd (create_repo demo_params (demo_provisioner 201 0)))) =
       [Http_post ''https://api.github.com/repos/acme/template-lib/generate''
          (request_headers ''t0k'')
          [(''owner'', PStr ''acme''), (''name'', PStr ''demo''),
           (''description'', PStr ''A demo'')],
        Log Info, Session_get_repo ''acme/demo'']"
  using create_repo_fail_fast [of demo_params "PStr ''template-lib''" "PStr ''acme''"
      "PStr ''demo''" "PStr ''A demo''" "demo_provisioner 422 0"]
    create_repo_fail_fast [of "demo_params(''github_template_repo'' \<mapsto> PStr '''')" "PStr ''''"
      "PStr ''acme''" "PStr ''demo''" "PStr ''A demo''" "demo_provisioner 500 0"]
    create_repo_fail_fast [of demo_params "PStr ''template-lib''" "PStr ''acme''"
      "PStr ''demo''" "PStr ''A demo''" "demo_provisioner 201 0"]
  by (auto simp add: demo_params_def demo_provisioner_def creation_url_def creation_data_def)

section \<open>The pruning of workflow runs\<close>

lemma deleted_runs_append [simp]: "deleted_runs (xs @ ys) = deleted_runs xs @ deleted_runs ys"
  by (simp add: deleted_runs_def)

lemma deleted_runs_Cons [simp]:
  "deleted_runs (ev # evs) = (case ev of Delete_run r \<Rightarrow> [r] | _ \<Rightarrow> []) @ deleted_runs evs"
  by (simp add: deleted_runs_def)

lemma deleted_runs_Nil [simp]: "deleted_runs [] = []"
  by (simp add: deleted_runs_def)

lemma deleted_runs_map [simp]: "deleted_runs (map Delete_run rs) = rs"
  by (induction rs) simp_all

lemma iterate_slice_loaded:
  assumes "faults w = (\<lambda>c k. None)" and "pl_next pl = None" and "i \<le> length (pl_elements pl)"
  shows "\<exists>w'. iterate_slice i pl w = (Return (), w')
           \<and> trace w' = trace w @ map Delete_run (drop i (pl_elements pl))"
  using assms
proof (induction "length (pl_elements pl) - i" arbitrary: i w)
  case 0
  then show ?case by (simp add: iterate_slice.simps [of i pl w])
next
  case (Suc n)
  let ?r = "pl_elements pl ! i"
  let ?w1 = "w\<lparr>trace := trace w @ [Delete_run ?r],
               workflows := map (\<lambda>x. x\<lparr>wf_runs := removeAll ?r (wf_runs x)\<rparr>) (workflows w)\<rparr>"
  from Suc.hyps(2) have i: "i < length (pl_elements pl)" by simp
  have f: "fetch_to_index i pl w = (Return pl, w)"
    using Suc.prems(2) by (simp add: fetch_to_index.simps [of i pl w])
  have d: "run_delete ?r w = (Return (\<exists>x \<in> set (workflows w). ?r \<in> set (wf_runs x)), ?w1)"
    using Suc.prems(1) by (simp add: run_delete_def api_def Let_def)
  have step: "iterate_slice i pl w = iterate_slice (i + 1) pl ?w1"
    using i f d by (simp add: iterate_slice.simps [of i pl w])
  have "\<exists>w'. iterate_slice (i + 1) pl ?w1 = (Return (), w')
           \<and> trace w' = trace ?w1 @ map Delete_run (drop (i + 1) (pl_elements pl))"
    using Suc.hyps(2) Suc.prems i by (intro Suc.hyps(1)) simp_all
  with step i show ?case
    by (auto simp add: Cons_nth_drop_Suc [symmetric])
qed

text \<open>
  While the runs of the workflow fit on one page of 30, the deletions are those of the claim:
  every run after the first 12, in the order of the API, and none up to 12 runs.
\<close>

lemma prune_within_one_page:
  assumes "faults w = (\<lambda>c k. None)"
    and "filter (\<lambda>x. wf_name x = ''Bootstrap - poll for repo requests'') (workflows w) = wfl # others"
    and "distinct (map wf_id (workflows w))"
    and "length (wf_runs wfl) \<le> 30"
  shows "\<exists>w'. delete_old_workflows w = (Return (), w')
          \<and> deleted_runs (trace w') = deleted_runs (trace w) @ drop 12 (wf_runs wfl)"
proof -
  let ?n = "''Bootstrap - poll for repo requests''"
  let ?rs = "wf_runs wfl"
  let ?i = "wf_id wfl"
  have "wfl \<in> set (filter (\<lambda>x. wf_name x = ?n) (workflows w))"
    using assms(2) by simp
  then have mem: "wfl \<in> set (workflows w)"
    by simp
  have uniq: "x = wfl" if "x \<in> set (workflows w)" "wf_id x = wf_id wfl" for x
    using that mem assms(3) by (meson distinct_map inj_onD)
  have fnd: "find (\<lambda>x. wf_id x = ?i) (workflows w) = Some wfl"
  proof (cases "find (\<lambda>x. wf_id x = ?i) (workflows w)")
    case None
    with mem show ?thesis by (auto simp: find_None_iff)
  next
    case (Some x)
    then have "x \<in> set (workflows w)" "wf_id x = wf_id wfl"
      by (auto simp: find_Some_iff)
    then have "x = wfl" by (rule uniq)
    with Some show ?thesis by simp
  qed
  let ?w2 = "w\<lparr>trace := trace w @ [Get_workflows, Get_runs_count ?i]\<rparr>"
  show ?thesis
  proof (cases "length ?rs > 12")
    case False
    have "delete_old_workflows w = (Return (), ?w2)"
      using assms(1,2) fnd False
      by (simp add: delete_old_workflows_def try_except_def seq_def get_workflows_def get_runs_def
          total_count_def runs_now_def api_def Let_def ret_def)
    then show ?thesis using False by simp
  next
    case True
    let ?pl0 = "\<lparr>pl_workflow = ?i, pl_elements = [], pl_next = Some 0\<rparr>"
    let ?pl1 = "\<lparr>pl_workflow = ?i, pl_elements = ?rs, pl_next = None\<rparr>"
    let ?w3 = "?w2\<lparr>trace := trace ?w2 @ [Log Debug]\<rparr>"
    let ?w4 = "?w3\<lparr>trace := trace ?w3 @ [Get_runs_page ?i 0]\<rparr>"
    have run: "delete_old_workflows w =
        try_except (iterate_slice 12 ?pl0) is_GithubException (\<lambda>e. log Warning) ?w3"
      using assms(1,2) fnd True
      by (simp add: delete_old_workflows_def try_except_def seq_def get_workflows_def get_runs_def
          total_count_def runs_now_def api_def Let_def ret_def log_def)
    have page: "fetch_next_page ?pl0 0 ?w3 = (Return ?pl1, ?w4)"
      using assms(1,4) fnd
      by (simp add: fetch_next_page_def runs_now_def api_def Let_def)
    have f1: "fetch_to_index 12 ?pl1 ?w4 = (Return ?pl1, ?w4)"
      by (subst fetch_to_index.simps) simp
    have f0: "fetch_to_index 12 ?pl0 ?w3 = (Return ?pl1, ?w4)"
      using page f1 by (subst fetch_to_index.simps) simp
    let ?next = "case run_delete (?rs ! 12) ?w4 of
                   (Return deleted, w'') \<Rightarrow> iterate_slice (12 + 1) ?pl1 w''
                 | (Raise e, w'') \<Rightarrow> (Raise e, w'')
                 | (Exit n, w'') \<Rightarrow> (Exit n, w'')"
    have "iterate_slice 12 ?pl0 ?w3 = ?next"
      using f0 True by (subst iterate_slice.simps) simp
    moreover have "iterate_slice 12 ?pl1 ?w4 = ?next"
      using f1 True by (subst iterate_slice.simps) simp
    ultimately have "iterate_slice 12 ?pl0 ?w3 = iterate_slice 12 ?pl1 ?w4"
      by simp
    moreover have "\<exists>w'. iterate_slice 12 ?pl1 ?w4 = (Return (), w')
           \<and> trace w' = trace ?w4 @ map Delete_run (drop 12 (pl_elements ?pl1))"
      using assms(1) True by (intro iterate_slice_loaded) simp_all
    ultimately obtain w' where "iterate_slice 12 ?pl0 ?w3 = (Return (), w')"
      and "trace w' = trace ?w4 @ map Delete_run (drop 12 ?rs)"
      by auto
    with run show ?thesis
      by (simp add: try_except_def)
  qed
qed

lemmas prune_defs =
  delete_old_workflows_def try_except_def seq_def ret_def Let_def log_def api_def
  get_workflows_def get_runs_def total_count_def runs_now_def fetch_next_page_def
  run_delete_def fetch_to_index.simps iterate_slice.simps deleted_runs_def demo_actions_def

text \<open>
  C8, evaluated on the code. With 12 runs \<^verbatim>\<open>delete_old_workflows\<close> deletes none and with 15
  runs it deletes the 3 after the first 12. With 45 runs and no failing call it deletes 18
  runs, those at the indices 12 to 29 of the first page; the second page is fetched after
  these deletions, from the 27 runs that are left, and is empty, so that indexing it raises
  \<^verbatim>\<open>IndexError\<close>, which is no \<^verbatim>\<open>GithubException\<close> and leaves the method. 27 runs remain,
  not 12, and 18 runs were deleted, not 33.
\<close>

theorem prune_stops_after_first_page:
  "fst (delete_old_workflows (demo_actions forty_five_runs)) = Raise IndexError
   \<and> deleted_runs (trace (snd (delete_old_workflows (demo_actions forty_five_runs)))) =
       [33, 32, 31, 30, 29, 28, 27, 26, 25, 24, 23, 22, 21, 20, 19, 18, 17, 16]
   \<and> runs_now (snd (delete_old_workflows (demo_actions forty_five_runs))) 2 =
       Some [45, 44, 43, 42, 41, 40, 39, 38, 37, 36, 35, 34, 15, 14, 13, 12, 11, 10, 9, 8,
             7, 6, 5, 4, 3, 2, 1]
   \<and> fst (delete_old_workflows (demo_actions [15, 14, 13, 12, 11, 10, 9, 8, 7, 6, 5, 4, 3, 2, 1]))
       = Return ()
   \<and> deleted_runs (trace (snd (delete_old_workflows
         (demo_actions [15, 14, 13, 12, 11, 10, 9, 8, 7, 6, 5, 4, 3, 2, 1])))) = [3, 2, 1]
   \<and> fst (delete_old_workflows (demo_actions [12, 11, 10, 9, 8, 7, 6, 5, 4, 3, 2, 1]))
       = Return ()
   \<and> deleted_runs (trace (snd (delete_old_workflows
         (demo_actions [12, 11, 10, 9, 8, 7, 6, 5, 4, 3, 2, 1])))) = []"
  by (simp add: prune_defs forty_five_runs_def)

section \<open>The runner group\<close>

lemma next_group_exhausted:
  "\<forall>g \<in> set groups. \<exists>v. map_of g ''name'' = Some v \<and> v \<noteq> PStr runner_group_name \<Longrightarrow>
   next_group groups runner_group_name w = (Raise StopIteration, w)"
  by (induction groups) (auto simp: raise_def)

text \<open>
  C6, evaluated on the code. When the repository exists, the listing of the runner groups
  succeeds and no group of the list has the name asked for, \<^verbatim>\<open>add_repo_to_runner_group\<close>
  makes no PUT call, but it neither logs an error nor returns \<^verbatim>\<open>False\<close>: \<^verbatim>\<open>next\<close>
  raises \<^verbatim>\<open>StopIteration\<close>, which is no \<^verbatim>\<open>GithubException\<close>, and the exception leaves
  the method.
\<close>

theorem missing_group_raises:
  assumes "faults w = (\<lambda>c k. None)"
    and "map_of (org_repos w) repo_name = Some repo_id"
    and "\<not> (400 \<le> get_status w \<and> get_status w < 600)"
    and "\<forall>g \<in> set (case runner_groups_entry w of None \<Rightarrow> [] | Some gs \<Rightarrow> gs).
           \<exists>v. map_of g ''name'' = Some v \<and> v \<noteq> PStr runner_group_name"
  shows "add_repo_to_runner_group repo_name runner_group_name w =
           (Raise StopIteration,
            w\<lparr>trace := trace w @
               [Org_get_repo repo_name,
                Http_get (''https://api.github.com/orgs/'' @ github_org w @
                            ''/actions/runner-groups'')
                  (request_headers (github_access_token w))]\<rparr>)"
proof -
  have ok: "raise_for_status (get_status w) v = (Return (), v)" for v :: runner_org
    using assms(3) by (auto simp add: raise_for_status_def ret_def)
  have ng: "next_group (case runner_groups_entry w of None \<Rightarrow> [] | Some gs \<Rightarrow> gs)
      runner_group_name v = (Raise StopIteration, v)" for v :: runner_org
    by (rule next_group_exhausted [OF assms(4)])
  show ?thesis
    using assms(1,2) ng ok
    by (simp add: add_repo_to_runner_group_def seq_def org_get_repo_def api_def Let_def
        self_github_org_def try_except_def requests_get_def ret_def)
qed

theorem missing_group_raises_witness:
  "add_repo_to_runner_group ''demo'' ''gpu''
     (demo_org 200 [[(''id'', PInt 1), (''name'', PStr ''default'')]] 204) =
   (Raise StopIteration,
    (demo_org 200 [[(''id'', PInt 1), (''name'', PStr ''default'')]] 204)
      \<lparr>trace := [Org_get_repo ''demo'',
                 Http_get ''https://api.github.com/orgs/acme/actions/runner-groups''
                   (request_headers ''t0k'')]\<rparr>)"
  using missing_group_raises
    [of "demo_org 200 [[(''id'', PInt 1), (''name'', PStr ''default'')]] 204" "''demo''" 42
        "''gpu''"]
  by (simp add: demo_org_def)

text \<open>
  C7, evaluated on the code. A repository that does not exist, a failed listing of the runner
  groups and a failed PUT each end \<^verbatim>\<open>add_repo_to_runner_group\<close> with an exception that
  leaves the method, not with the return value \<^verbatim>\<open>False\<close>; only the run without a failure
  returns \<^verbatim>\<open>True\<close>.
\<close>

theorem runner_group_failures_raise:
  "fst (add_repo_to_runner_group ''ghost'' ''default''
          (demo_org 200 [[(''id'', PInt 1), (''name'', PStr ''default'')]] 204))
     = Raise (GithubException 404)
   \<and> fst (add_repo_to_runner_group ''demo'' ''default''
          (demo_org 500 [[(''id'', PInt 1), (''name'', PStr ''default'')]] 204))
     = Raise (HTTPError 500)
   \<and> fst (add_repo_to_runner_group ''demo'' ''default''
          (demo_org 200 [[(''id'', PInt 1), (''name'', PStr ''default'')]] 403))
     = Raise (HTTPError 403)
   \<and> add_repo_to_runner_group ''demo'' ''default''
          (demo_org 200 [[(''id'', PInt 1), (''name'', PStr ''default'')]] 204)
     = (Return True,
        (demo_org 200 [[(''id'', PInt 1), (''name'', PStr ''default'')]] 204)
          \<lparr>trace := [Org_get_repo ''demo'',
                     Http_get ''https://api.github.com/orgs/acme/actions/runner-groups''
                       (request_headers ''t0k''),
                     Http_put ''https://api.github.com/orgs/acme/actions/runner-groups/1/repositories/42''
                       (request_headers ''t0k''),
                     Log Info]\<rparr>)"
  by (simp add: add_repo_to_runner_group_def seq_def org_get_repo_def api_def Let_def
      self_github_org_def try_except_def requests_get_def requests_put_def raise_for_status_def
      ret_def raise_def dict_getitem_def log_def demo_org_def str_int_def str_nat.simps
      digit_char_def)

section \<open>The pull request step\<close>

lemma ensure_branch_ok:
  assumes "faults w = (\<lambda>c k. None)" and "map_of (branches w) ''main'' = Some c"
  shows "ensure_branch b w =
     (if b \<in> fst ` set (branches w)
      then (Return (), w\<lparr>trace := trace w @ [Get_branches]\<rparr>)
      else (Return (), w\<lparr>trace := trace w @ [Get_branches, Log Info, Get_branch ''main'',
                                      Create_git_ref (''refs/heads/'' @ b) (Commit_sha c)],
                         branches := branches w @ [(b, c)]\<rparr>))"
  using assms
  by (auto simp add: ensure_branch_def seq_def get_branches_def api_def Let_def log_def
      get_branch_def create_git_ref_def ret_def map_of_eq_None_iff)

lemma write_descriptor_ok:
  assumes "faults w = (\<lambda>c k. None)" and "map_of (branches w) b = Some c"
  shows "\<exists>w'. write_descriptor request b w = (Return (), w')
     \<and> faults w' = faults w \<and> pulls w' = pulls w \<and> github_org w' = github_org w
     \<and> next_number w' = next_number w
     \<and> pull_calls (trace w') = pull_calls (trace w)
     \<and> map_of (branches w') b \<noteq> None
     \<and> (map_of (branches w') ''main'' = None \<longrightarrow> map_of (branches w) ''main'' = None)
     \<and> node_at w' b (descriptor_path b) =
         (case node_at w b (descriptor_path b) of
            Some (Tree names) \<Rightarrow> Some (Tree names)
          | _ \<Rightarrow> Some (Blob (descriptor_text request)))"
proof (cases "commits w c (''requests/'' @ b @ ''.json'')")
  case None
  with assms show ?thesis
    by (simp add: write_descriptor_def seq_def try_except_def get_contents_def create_file_def
        api_def Let_def log_def ret_def commit_file_def pull_calls_def node_at_def
        descriptor_path_def descriptor_text_def update_conv')
next
  case (Some n)
  show ?thesis
  proof (cases n)
    case (Blob old)
    with Some assms show ?thesis
      by (simp add: write_descriptor_def seq_def try_except_def get_contents_def update_file_def
          api_def Let_def log_def ret_def commit_file_def pull_calls_def node_at_def
          descriptor_path_def descriptor_text_def update_conv')
  next
    case (Tree names)
    with Some assms show ?thesis
      by (simp add: write_descriptor_def seq_def try_except_def get_contents_def
          api_def Let_def log_def ret_def pull_calls_def node_at_def
          descriptor_path_def descriptor_text_def)
  qed
qed

lemma filter_map_automerge:
  "(\<And>p. P (p\<lparr>pr_automerge := a\<rparr>) = P p) \<Longrightarrow>
   filter P (map (\<lambda>p. if pr_number p = n then p\<lparr>pr_automerge := a\<rparr> else p) ps) =
   map (\<lambda>p. if pr_number p = n then p\<lparr>pr_automerge := a\<rparr> else p) (filter P ps)"
  by (induction ps) auto

lemma matching_pulls_trace [simp]:
  "matching_pulls (w\<lparr>trace := t\<rparr>) st bs hl = matching_pulls w st bs hl"
  by (simp add: matching_pulls_def)

lemma raise_pr_new:
  assumes "faults w = (\<lambda>c k. None)" and "open_pulls w b = []"
  shows "\<exists>w'. raise_or_find_pr request b w =
           (Return (request(''request_github_pr_number'' \<mapsto> PInt (int (next_number w)),
                        ''output_status'' \<mapsto> PStr ''New'',
                        ''request_github_pr_status'' \<mapsto> PStr ''Raised'')), w')
       \<and> trace w' = trace w @
           [Get_pulls ''open'' ''created'' ''main'' (github_org w @ '':'' @ b),
            Log Debug, Log Info,
            Create_pull (''Project request for '' @ py_str (py_get request ''github_repo''))
                (''Project request raised for '' @ py_str (py_get request ''github_repo''))
                b ''main'',
            Enable_automerge (next_number w) ''MERGE'']
       \<and> open_pulls w' b =
           [\<lparr>pr_number = next_number w,
             pr_title = ''Project request for '' @ py_str (py_get request ''github_repo''),
             pr_body = ''Project request raised for '' @ py_str (py_get request ''github_repo''),
             pr_head = b, pr_base = ''main'', pr_state = ''open'',
             pr_automerge = Some ''MERGE''\<rparr>]
       \<and> faults w' = faults w \<and> branches w' = branches w \<and> commits w' = commits w
       \<and> github_org w' = github_org w"
  using assms
    filter_map_automerge [of "\<lambda>p. pr_state p = ''open'' \<and> pr_base p = ''main'' \<and> pr_head p = b"
      "Some ''MERGE''" "next_number w" "pulls w"]
  by (simp add: raise_or_find_pr_def seq_def self_github_org_def get_pulls_def api_def Let_def
     log_def create_pull_def enable_automerge_def ret_def open_pulls_def matching_pulls_def)

lemma raise_pr_found:
  assumes "faults w = (\<lambda>c k. None)" and "open_pulls w b \<noteq> []"
  shows "raise_or_find_pr request b w =
           (Return (request(''request_github_pr_number'' \<mapsto>
                              PInt (int (pr_number (open_pulls w b ! 0))),
                        ''output_status'' \<mapsto> PStr ''Updated'',
                        ''request_github_pr_status'' \<mapsto> PStr ''Updated'')),
            w\<lparr>trace := trace w @
               [Get_pulls ''open'' ''created'' ''main'' (github_org w @ '':'' @ b),
                Log Debug, Log Info]\<rparr>)"
  using assms
  by (simp add: raise_or_find_pr_def seq_def self_github_org_def get_pulls_def api_def Let_def
     log_def ret_def open_pulls_def)

lemma create_update_pr_blocks:
  assumes "request ''id'' = Some rid"
    and "seq (ensure_branch (branch_name_of rid request))
           (\<lambda>_. write_descriptor request (branch_name_of rid request)) w = (Return (), w1)"
  shows "create_update_pr request w = raise_or_find_pr request (branch_name_of rid request) w1"
proof -
  let ?b = "branch_name_of rid request"
  obtain r0 w0 where e: "ensure_branch ?b w = (r0, w0)" by (cases "ensure_branch ?b w")
  with assms(2) have r0: "r0 = Return ()" and wd: "write_descriptor request ?b w0 = (Return (), w1)"
    by (auto simp: seq_def split: outcome.splits)
  with e assms(1) show ?thesis
    by (simp add: create_update_pr_def py_getitem_def seq_def ret_def Let_def)
qed

text \<open>
  C2. Let the branch and descriptor steps of \<^verbatim>\<open>create_update_pr\<close> have completed, leaving
  the world \<open>w1\<close>, and let no call fail from there. If no open pull request has base
  \<^verbatim>\<open>main\<close> and head \<^verbatim>\<open>{org}:{branch_name}\<close>, then after listing them the method
  creates one with title \<^verbatim>\<open>Project request for {repo}\<close> and body
  \<^verbatim>\<open>Project request raised for {repo}\<close>, enables auto-merge with method
  \<^verbatim>\<open>MERGE\<close>, and returns the request with \<^verbatim>\<open>output_status = "New"\<close>,
  \<^verbatim>\<open>request_github_pr_status = "Raised"\<close> and the number of the new pull request, which
  is then the only open one of the branch. If there is one, it returns the request with
  \<^verbatim>\<open>"Updated"\<close>, \<^verbatim>\<open>"Updated"\<close> and the number of the first of them; it makes no
  call other than the listing, and the pull requests are left as they were.
\<close>

theorem pr_raised_or_found:
  assumes "request ''id'' = Some rid"
    and "seq (ensure_branch (branch_name_of rid request))
           (\<lambda>_. write_descriptor request (branch_name_of rid request)) w = (Return (), w1)"
    and "faults w1 = (\<lambda>c k. None)"
  shows "(open_pulls w1 (branch_name_of rid request) = [] \<longrightarrow>
           (\<exists>w2. create_update_pr request w =
              (Return (request(''request_github_pr_number'' \<mapsto> PInt (int (next_number w1)),
                           ''output_status'' \<mapsto> PStr ''New'',
                           ''request_github_pr_status'' \<mapsto> PStr ''Raised'')), w2)
            \<and> trace w2 = trace w1 @
                [Get_pulls ''open'' ''created'' ''main''
                   (github_org w1 @ '':'' @ branch_name_of rid request),
                 Log Debug, Log Info,
                 Create_pull (''Project request for '' @ py_str (py_get request ''github_repo''))
                   (''Project request raised for '' @ py_str (py_get request ''github_repo''))
                   (branch_name_of rid request) ''main'',
                 Enable_automerge (next_number w1) ''MERGE'']
            \<and> open_pulls w2 (branch_name_of rid request) =
                [\<lparr>pr_number = next_number w1,
                  pr_title = ''Project request for '' @ py_str (py_get request ''github_repo''),
                  pr_body = ''Project request raised for '' @
                              py_str (py_get request ''github_repo''),
                  pr_head = branch_name_of rid request, pr_base = ''main'',
                  pr_state = ''open'', pr_automerge = Some ''MERGE''\<rparr>]))
       \<and> (open_pulls w1 (branch_name_of rid request) \<noteq> [] \<longrightarrow>
           (\<exists>w2. create_update_pr request w =
              (Return (request(''request_github_pr_number'' \<mapsto>
                                 PInt (int (pr_number (open_pulls w1 (branch_name_of rid request) ! 0))),
                           ''output_status'' \<mapsto> PStr ''Updated'',
                           ''request_github_pr_status'' \<mapsto> PStr ''Updated'')), w2)
            \<and> trace w2 = trace w1 @
                [Get_pulls ''open'' ''created'' ''main''
                   (github_org w1 @ '':'' @ branch_name_of rid request),
                 Log Debug, Log Info]
            \<and> pulls w2 = pulls w1))"
proof (intro conjI impI)
  assume "open_pulls w1 (branch_name_of rid request) = []"
  from raise_pr_new [OF assms(3) this, of request] create_update_pr_blocks [OF assms(1,2)]
  show "\<exists>w2. create_update_pr request w =
              (Return (request(''request_github_pr_number'' \<mapsto> PInt (int (next_number w1)),
                           ''output_status'' \<mapsto> PStr ''New'',
                           ''request_github_pr_status'' \<mapsto> PStr ''Raised'')), w2)
            \<and> trace w2 = trace w1 @
                [Get_pulls ''open'' ''created'' ''main''
                   (github_org w1 @ '':'' @ branch_name_of rid request),
                 Log Debug, Log Info,
                 Create_pull (''Project request for '' @ py_str (py_get request ''github_repo''))
                   (''Project request raised for '' @ py_str (py_get request ''github_repo''))
                   (branch_name_of rid request) ''main'',
                 Enable_automerge (next_number w1) ''MERGE'']
            \<and> open_pulls w2 (branch_name_of rid request) =
                [\<lparr>pr_number = next_number w1,
                  pr_title = ''Project request for '' @ py_str (py_get request ''github_repo''),
                  pr_body = ''Project request raised for '' @
                              py_str (py_get request ''github_repo''),
                  pr_head = branch_name_of rid request, pr_base = ''main'',
                  pr_state = ''open'', pr_automerge = Some ''MERGE''\<rparr>]"
    by auto
next
  assume "open_pulls w1 (branch_name_of rid request) \<noteq> []"
  from raise_pr_found [OF assms(3) this, of request] create_update_pr_blocks [OF assms(1,2)]
  show "\<exists>w2. create_update_pr request w =
              (Return (request(''request_github_pr_number'' \<mapsto>
                                 PInt (int (pr_number (open_pulls w1 (branch_name_of rid request) ! 0))),
                           ''output_status'' \<mapsto> PStr ''Updated'',
                           ''request_github_pr_status'' \<mapsto> PStr ''Updated'')), w2)
            \<and> trace w2 = trace w1 @
                [Get_pulls ''open'' ''created'' ''main''
                   (github_org w1 @ '':'' @ branch_name_of rid request),
                 Log Debug, Log Info]
            \<and> pulls w2 = pulls w1"
    by simp
qed

theorem pr_raised_or_found_witness:
  "fst (create_update_pr demo_request fresh_bootstrap) =
     Return (demo_request(''request_github_pr_number'' \<mapsto> PInt 1,
                          ''output_status'' \<mapsto> PStr ''New'',
                          ''request_github_pr_status'' \<mapsto> PStr ''Raised''))
   \<and> fst (create_update_pr demo_request (snd (create_update_pr demo_request fresh_bootstrap))) =
     Return (demo_request(''request_github_pr_number'' \<mapsto> PInt 1,
                          ''output_status'' \<mapsto> PStr ''Updated'',
                          ''request_github_pr_status'' \<mapsto> PStr ''Updated''))"
proof -
  let ?b = "branch_name_of (PInt 7) demo_request"
  let ?w1 = "snd (seq (ensure_branch ?b) (\<lambda>_. write_descriptor demo_request ?b) fresh_bootstrap)"
  let ?v = "snd (create_update_pr demo_request fresh_bootstrap)"
  let ?v1 = "snd (seq (ensure_branch ?b) (\<lambda>_. write_descriptor demo_request ?b) ?v)"
  have id: "demo_request ''id'' = Some (PInt 7)"
    by (simp add: demo_request_def)
  have blocks: "seq (ensure_branch ?b) (\<lambda>_. write_descriptor demo_request ?b) fresh_bootstrap
      = (Return (), ?w1)"
    by (simp add: run_defs demo_defs)
  have first: "faults ?w1 = (\<lambda>c k. None)" "open_pulls ?w1 ?b = []" "next_number ?w1 = 1"
    by (simp_all add: run_defs demo_defs open_pulls_def)
  have blocks': "seq (ensure_branch ?b) (\<lambda>_. write_descriptor demo_request ?b) ?v
      = (Return (), ?v1)"
    by (simp add: run_defs demo_defs update_conv')
  have second: "faults ?v1 = (\<lambda>c k. None)" "open_pulls ?v1 ?b \<noteq> []"
    "pr_number (open_pulls ?v1 ?b ! 0) = 1"
    by (simp_all add: run_defs demo_defs open_pulls_def update_conv')
  from pr_raised_or_found [OF id blocks first(1)] first(2,3)
    pr_raised_or_found [OF id blocks' second(1)] second(2,3)
  show ?thesis by auto
qed

section \<open>Two invocations in a row\<close>

lemma ensure_branch_present:
  assumes "faults w = (\<lambda>c k. None)" and "map_of (branches w) b = Some c"
  shows "ensure_branch b w = (Return (), w\<lparr>trace := trace w @ [Get_branches]\<rparr>)"
proof -
  from assms(2) have "b \<in> fst ` set (branches w)"
    by (metis map_of_eq_None_iff option.distinct(1))
  with assms(1) show ?thesis
    by (simp add: ensure_branch_def seq_def get_branches_def api_def Let_def ret_def)
qed

lemma pull_calls_append [simp]: "pull_calls (xs @ ys) = pull_calls xs @ pull_calls ys"
  by (simp add: pull_calls_def)

lemma pull_calls_Nil [simp]: "pull_calls [] = []"
  by (simp add: pull_calls_def)

lemma pull_calls_Cons:
  "pull_calls (ev # evs) =
     (case ev of Create_pull t b h m \<Rightarrow> [ev] | Enable_automerge n m \<Rightarrow> [ev] | _ \<Rightarrow> []) @
     pull_calls evs"
  by (cases ev) (simp_all add: pull_calls_def)

lemma open_pulls_trace [simp]: "open_pulls (w\<lparr>trace := t\<rparr>) b = open_pulls w b"
  by (simp add: open_pulls_def)

lemma node_at_trace [simp]: "node_at (w\<lparr>trace := t\<rparr>) b p = node_at w b p"
  by (simp add: node_at_def split: option.splits)

lemma same_descriptor:
  assumes "\<forall>k \<in> set json_fields. request2 k = request k"
  shows "request_json_of request2 = request_json_of request"
    and "py_get request2 ''github_repo'' = py_get request ''github_repo''"
proof -
  have "\<And>ks. \<forall>k \<in> set ks. request2 k = request k \<Longrightarrow>
      [(key, py_get request2 key). key \<leftarrow> ks, request2 key \<noteq> None] =
      [(key, py_get request key). key \<leftarrow> ks, request key \<noteq> None]"
    subgoal for ks by (induction ks) (auto simp: py_get_def)
    done
  with assms show "request_json_of request2 = request_json_of request"
    by (simp add: request_json_of_def)
  from assms have "request2 ''github_repo'' = request ''github_repo''"
    by (simp add: json_fields_def)
  then show "py_get request2 ''github_repo'' = py_get request ''github_repo''"
    by (simp add: py_get_def)
qed

lemma second_run:
  assumes nf: "faults w = (\<lambda>c k. None)"
    and id: "request ''id'' = Some rid"
    and br: "map_of (branches w) (branch_name_of rid request) = Some c"
    and node: "node_at w (branch_name_of rid request) (descriptor_path (branch_name_of rid request))
                 = Some (Blob (descriptor_text request))
               \<or> (\<exists>names. node_at w (branch_name_of rid request)
                     (descriptor_path (branch_name_of rid request)) = Some (Tree names))"
    and prs: "open_pulls w (branch_name_of rid request) \<noteq> []"
  shows "\<exists>w2. create_update_pr request w =
           (Return (request(''request_github_pr_number'' \<mapsto>
                       PInt (int (pr_number (open_pulls w (branch_name_of rid request) ! 0))),
                     ''output_status'' \<mapsto> PStr ''Updated'',
                     ''request_github_pr_status'' \<mapsto> PStr ''Updated'')), w2)
         \<and> node_at w2 (branch_name_of rid request) (descriptor_path (branch_name_of rid request))
             = node_at w (branch_name_of rid request) (descriptor_path (branch_name_of rid request))
         \<and> pulls w2 = pulls w \<and> github_org w2 = github_org w
         \<and> pull_calls (trace w2) = pull_calls (trace w)"
proof -
  let ?b = "branch_name_of rid request"
  let ?w0 = "w\<lparr>trace := trace w @ [Get_branches]\<rparr>"
  have e: "ensure_branch ?b w = (Return (), ?w0)"
    by (rule ensure_branch_present [OF nf br])
  have nf0: "faults ?w0 = (\<lambda>c k. None)" and br0: "map_of (branches ?w0) ?b = Some c"
    using nf br by simp_all
  from write_descriptor_ok [OF nf0 br0, of request]
  obtain w1 where wd: "write_descriptor request ?b ?w0 = (Return (), w1)"
    and f1: "faults w1 = faults ?w0" and p1: "pulls w1 = pulls ?w0"
    and o1: "github_org w1 = github_org ?w0"
    and c1: "pull_calls (trace w1) = pull_calls (trace ?w0)"
    and n1: "node_at w1 ?b (descriptor_path ?b) =
         (case node_at ?w0 ?b (descriptor_path ?b) of
            Some (Tree names) \<Rightarrow> Some (Tree names)
          | _ \<Rightarrow> Some (Blob (descriptor_text request)))"
    by blast
  have blocks: "seq (ensure_branch ?b) (\<lambda>_. write_descriptor request ?b) w = (Return (), w1)"
    using e wd by (simp add: seq_def)
  have op1: "open_pulls w1 ?b = open_pulls w ?b"
    using p1 o1 by (simp add: open_pulls_def matching_pulls_def)
  have nf1: "faults w1 = (\<lambda>c k. None)" using f1 nf by simp
  have "create_update_pr request w = raise_or_find_pr request ?b w1"
    by (rule create_update_pr_blocks [OF id blocks])
  also have "\<dots> = (Return (request(''request_github_pr_number'' \<mapsto>
                       PInt (int (pr_number (open_pulls w1 ?b ! 0))),
                     ''output_status'' \<mapsto> PStr ''Updated'',
                     ''request_github_pr_status'' \<mapsto> PStr ''Updated'')),
            w1\<lparr>trace := trace w1 @
               [Get_pulls ''open'' ''created'' ''main'' (github_org w1 @ '':'' @ ?b),
                Log Debug, Log Info]\<rparr>)"
    using prs op1 by (intro raise_pr_found [OF nf1]) simp
  finally have run: "create_update_pr request w =
      (Return (request(''request_github_pr_number'' \<mapsto>
                       PInt (int (pr_number (open_pulls w ?b ! 0))),
                     ''output_status'' \<mapsto> PStr ''Updated'',
                     ''request_github_pr_status'' \<mapsto> PStr ''Updated'')),
            w1\<lparr>trace := trace w1 @
               [Get_pulls ''open'' ''created'' ''main'' (github_org w1 @ '':'' @ ?b),
                Log Debug, Log Info]\<rparr>)"
    by (simp add: op1)
  have same: "node_at w1 ?b (descriptor_path ?b) = node_at w ?b (descriptor_path ?b)"
    using n1 node by auto
  show ?thesis
    using run same p1 o1 c1 by (simp add: pull_calls_Cons)
qed

lemma first_run:
  assumes nf: "faults w = (\<lambda>c k. None)"
    and id: "request ''id'' = Some rid"
    and main: "map_of (branches w) ''main'' = Some cm"
  shows "\<exists>req1 w1 c. create_update_pr request w = (Return req1, w1)
         \<and> faults w1 = (\<lambda>c k. None)
         \<and> map_of (branches w1) (branch_name_of rid request) = Some c
         \<and> (node_at w1 (branch_name_of rid request) (descriptor_path (branch_name_of rid request))
                 = Some (Blob (descriptor_text request))
             \<or> (\<exists>names. node_at w1 (branch_name_of rid request)
                     (descriptor_path (branch_name_of rid request)) = Some (Tree names)))
         \<and> open_pulls w1 (branch_name_of rid request) \<noteq> []
         \<and> (length (open_pulls w (branch_name_of rid request)) \<le> 1 \<longrightarrow>
              length (open_pulls w1 (branch_name_of rid request)) = 1)
         \<and> req1 ''request_github_pr_number'' =
              Some (PInt (int (pr_number (open_pulls w1 (branch_name_of rid request) ! 0))))
         \<and> (\<forall>k. k \<notin> {''request_github_pr_number'', ''output_status'',
                       ''request_github_pr_status''} \<longrightarrow> req1 k = request k)"
proof -
  let ?b = "branch_name_of rid request"
  let ?p = "descriptor_path ?b"
  obtain w0 c0 where e: "ensure_branch ?b w = (Return (), w0)"
    and nf0: "faults w0 = (\<lambda>c k. None)" and br0: "map_of (branches w0) ?b = Some c0"
    and op0: "open_pulls w0 ?b = open_pulls w ?b"
  proof (cases "?b \<in> fst ` set (branches w)")
    case True
    then obtain c where c: "map_of (branches w) ?b = Some c"
      by (metis map_of_eq_None_iff not_None_eq)
    show ?thesis
      by (rule that [OF ensure_branch_present [OF nf c]]) (use nf c in simp_all)
  next
    case False
    let ?w0 = "w\<lparr>trace := trace w @ [Get_branches, Log Info, Get_branch ''main'',
                                      Create_git_ref (''refs/heads/'' @ ?b) (Commit_sha cm)],
                         branches := branches w @ [(?b, cm)]\<rparr>"
    have "ensure_branch ?b w = (Return (), ?w0)"
      using ensure_branch_ok [OF nf main, of ?b] False by simp
    moreover have "map_of (branches w) ?b = None"
      using False by (simp add: map_of_eq_None_iff)
    then have "map_of (branches ?w0) ?b = Some cm"
      by (simp add: map_add_def)
    moreover have "open_pulls ?w0 ?b = open_pulls w ?b"
      by (simp add: open_pulls_def matching_pulls_def)
    ultimately show ?thesis using nf by (intro that [of ?w0 cm]) simp_all
  qed
  from write_descriptor_ok [OF nf0 br0, of request]
  obtain w1 where wd: "write_descriptor request ?b w0 = (Return (), w1)"
    and f1: "faults w1 = faults w0" and p1: "pulls w1 = pulls w0"
    and o1: "github_org w1 = github_org w0"
    and b1: "map_of (branches w1) ?b \<noteq> None"
    and n1: "node_at w1 ?b ?p =
         (case node_at w0 ?b ?p of
            Some (Tree names) \<Rightarrow> Some (Tree names)
          | _ \<Rightarrow> Some (Blob (descriptor_text request)))"
    by blast
  have blocks: "seq (ensure_branch ?b) (\<lambda>_. write_descriptor request ?b) w = (Return (), w1)"
    using e wd by (simp add: seq_def)
  have op1: "open_pulls w1 ?b = open_pulls w ?b"
    using p1 o1 op0 by (simp add: open_pulls_def matching_pulls_def)
  have nf1: "faults w1 = (\<lambda>c k. None)" using f1 nf0 by simp
  have node1: "node_at w1 ?b ?p = Some (Blob (descriptor_text request))
             \<or> (\<exists>names. node_at w1 ?b ?p = Some (Tree names))"
    using n1 by (auto split: option.splits node.splits)
  from b1 obtain c1 where c1: "map_of (branches w1) ?b = Some c1" by auto
  have run: "create_update_pr request w = raise_or_find_pr request ?b w1"
    by (rule create_update_pr_blocks [OF id blocks])
  show ?thesis
  proof (cases "open_pulls w1 ?b = []")
    case True
    from raise_pr_new [OF nf1 True, of request]
    obtain w2 where r: "raise_or_find_pr request ?b w1 =
           (Return (request(''request_github_pr_number'' \<mapsto> PInt (int (next_number w1)),
                        ''output_status'' \<mapsto> PStr ''New'',
                        ''request_github_pr_status'' \<mapsto> PStr ''Raised'')), w2)"
      and o2: "open_pulls w2 ?b =
           [\<lparr>pr_number = next_number w1,
             pr_title = ''Project request for '' @ py_str (py_get request ''github_repo''),
             pr_body = ''Project request raised for '' @ py_str (py_get request ''github_repo''),
             pr_head = ?b, pr_base = ''main'', pr_state = ''open'',
             pr_automerge = Some ''MERGE''\<rparr>]"
      and f2: "faults w2 = faults w1" and b2: "branches w2 = branches w1"
      and c2: "commits w2 = commits w1"
      by blast
    have "node_at w2 ?b ?p = node_at w1 ?b ?p"
      using b2 c2 by (simp add: node_at_def split: option.splits)
    with node1 run r o2 f2 nf1 b2 c1 show ?thesis
      by (intro exI [of _ "request(''request_github_pr_number'' \<mapsto> PInt (int (next_number w1)),
                        ''output_status'' \<mapsto> PStr ''New'',
                        ''request_github_pr_status'' \<mapsto> PStr ''Raised'')"] exI [of _ w2]
             exI [of _ c1]) simp
  next
    case False
    let ?w2 = "w1\<lparr>trace := trace w1 @
               [Get_pulls ''open'' ''created'' ''main'' (github_org w1 @ '':'' @ ?b),
                Log Debug, Log Info]\<rparr>"
    have r: "raise_or_find_pr request ?b w1 =
           (Return (request(''request_github_pr_number'' \<mapsto>
                              PInt (int (pr_number (open_pulls w1 ?b ! 0))),
                        ''output_status'' \<mapsto> PStr ''Updated'',
                        ''request_github_pr_status'' \<mapsto> PStr ''Updated'')), ?w2)"
      by (rule raise_pr_found [OF nf1 False])
    have len: "length (open_pulls w ?b) \<le> 1 \<longrightarrow> length (open_pulls w1 ?b) = 1"
      using False op1 by (cases "open_pulls w ?b") auto
    with node1 run r nf1 c1 False show ?thesis
      by (intro exI [of _ "request(''request_github_pr_number'' \<mapsto>
                              PInt (int (pr_number (open_pulls w1 ?b ! 0))),
                        ''output_status'' \<mapsto> PStr ''Updated'',
                        ''request_github_pr_status'' \<mapsto> PStr ''Updated'')"] exI [of _ ?w2]
             exI [of _ c1]) simp
  qed
qed

text \<open>
  C1. Idempotence of the reconciliation. In a world where no call fails and \<^verbatim>\<open>main\<close>
  exists, let a first invocation of \<^verbatim>\<open>create_update_pr\<close> on a request end in \<open>w1\<close>, and
  a second one, on any mapping with the same id and the same allow-listed fields, end in
  \<open>w2\<close>; the mapping that the first invocation returns is such a mapping. Then both
  return normally; the second computes the same branch name \<^verbatim>\<open>REQ_{id}_{repo}\<close> and the
  same descriptor; the node at \<^verbatim>\<open>requests/{branch}.json\<close> on the branch is the same after
  both, and it is the file with the descriptor's text unless the path is a directory; the
  open pull requests of the branch are the same after both, there is at least one, and
  exactly one when there was at most one before the first invocation; the second invocation
  makes no call that creates a pull request or sets its auto-merge, and it reports the same
  pull request number.
\<close>

theorem reconciliation_idempotent:
  assumes "faults w = (\<lambda>c k. None)"
    and "request ''id'' = Some rid"
    and "map_of (branches w) ''main'' = Some cm"
    and "create_update_pr request w = (r1, w1)"
    and "request2 ''id'' = Some rid"
    and "\<forall>k \<in> set json_fields. request2 k = request k"
    and "create_update_pr request2 w1 = (r2, w2)"
  shows "\<exists>req1 req2. r1 = Return req1 \<and> r2 = Return req2
       \<and> req1 ''id'' = Some rid \<and> (\<forall>k \<in> set json_fields. req1 k = request k)
       \<and> branch_name_of rid request2 = branch_name_of rid request
       \<and> request_json_of request2 = request_json_of request
       \<and> node_at w2 (branch_name_of rid request) (descriptor_path (branch_name_of rid request))
           = node_at w1 (branch_name_of rid request) (descriptor_path (branch_name_of rid request))
       \<and> (node_at w1 (branch_name_of rid request) (descriptor_path (branch_name_of rid request))
             = Some (Blob (descriptor_text request))
           \<or> (\<exists>names. node_at w1 (branch_name_of rid request)
                 (descriptor_path (branch_name_of rid request)) = Some (Tree names)))
       \<and> open_pulls w2 (branch_name_of rid request) = open_pulls w1 (branch_name_of rid request)
       \<and> open_pulls w1 (branch_name_of rid request) \<noteq> []
       \<and> (length (open_pulls w (branch_name_of rid request)) \<le> 1 \<longrightarrow>
            length (open_pulls w2 (branch_name_of rid request)) = 1)
       \<and> pull_calls (trace w2) = pull_calls (trace w1)
       \<and> req2 ''request_github_pr_number'' = req1 ''request_github_pr_number''"
proof -
  let ?b = "branch_name_of rid request"
  let ?p = "descriptor_path ?b"
  from first_run [of w request rid cm, OF assms(1-3)] assms(4)
  obtain req1 c where r1: "r1 = Return req1"
    and nf1: "faults w1 = (\<lambda>c k. None)"
    and br1: "map_of (branches w1) ?b = Some c"
    and node1: "node_at w1 ?b ?p = Some (Blob (descriptor_text request))
             \<or> (\<exists>names. node_at w1 ?b ?p = Some (Tree names))"
    and open1: "open_pulls w1 ?b \<noteq> []"
    and len1: "length (open_pulls w ?b) \<le> 1 \<longrightarrow> length (open_pulls w1 ?b) = 1"
    and num1: "req1 ''request_github_pr_number'' =
              Some (PInt (int (pr_number (open_pulls w1 ?b ! 0))))"
    and rest1: "\<forall>k. k \<notin> {''request_github_pr_number'', ''output_status'',
                       ''request_github_pr_status''} \<longrightarrow> req1 k = request k"
    by auto
  have sb: "branch_name_of rid request2 = ?b"
    using same_descriptor(2) [OF assms(6)] by (simp add: branch_name_of_def)
  have sj: "request_json_of request2 = request_json_of request"
    by (rule same_descriptor(1) [OF assms(6)])
  have st: "descriptor_text request2 = descriptor_text request"
    using sj by (simp add: descriptor_text_def)
  have br2: "map_of (branches w1) (branch_name_of rid request2) = Some c"
    using br1 sb by simp
  have node2': "node_at w1 (branch_name_of rid request2)
                  (descriptor_path (branch_name_of rid request2))
                 = Some (Blob (descriptor_text request2))
               \<or> (\<exists>names. node_at w1 (branch_name_of rid request2)
                     (descriptor_path (branch_name_of rid request2)) = Some (Tree names))"
    using node1 sb st by simp
  have open2': "open_pulls w1 (branch_name_of rid request2) \<noteq> []"
    using open1 sb by simp
  from second_run [of w1 request2 rid c, OF nf1 assms(5) br2 node2' open2'] assms(7) sb
  obtain req2 where r2: "r2 = Return req2"
    and num2: "req2 ''request_github_pr_number'' =
              Some (PInt (int (pr_number (open_pulls w1 ?b ! 0))))"
    and node2: "node_at w2 ?b ?p = node_at w1 ?b ?p"
    and p2: "pulls w2 = pulls w1" and o2: "github_org w2 = github_org w1"
    and c2: "pull_calls (trace w2) = pull_calls (trace w1)"
    by auto
  have open2: "open_pulls w2 ?b = open_pulls w1 ?b"
    using p2 o2 by (simp add: open_pulls_def matching_pulls_def)
  have id1: "req1 ''id'' = Some rid" using rest1 assms(2) by simp
  have js1: "\<forall>k \<in> set json_fields. req1 k = request k"
    using rest1 by (auto simp: json_fields_def)
  show ?thesis
    using r1 r2 id1 js1 sb sj node2 node1 open2 open1 len1 c2 num1 num2 by simp
qed

theorem reconciliation_idempotent_witness:
  "length (open_pulls
      (snd (create_update_pr demo_request (snd (create_update_pr demo_request fresh_bootstrap))))
      (branch_name_of (PInt 7) demo_request)) = 1
   \<and> pull_calls (trace
        (snd (create_update_pr demo_request (snd (create_update_pr demo_request fresh_bootstrap)))))
     = pull_calls (trace (snd (create_update_pr demo_request fresh_bootstrap)))
   \<and> branch_name_of (PInt 7) demo_request = ''REQ_7_demo''"
proof -
  let ?r1 = "create_update_pr demo_request fresh_bootstrap"
  let ?r2 = "create_update_pr demo_request (snd ?r1)"
  have h: "faults fresh_bootstrap = (\<lambda>c k. None)" "demo_request ''id'' = Some (PInt 7)"
    "map_of (branches fresh_bootstrap) ''main'' = Some 0"
    "\<forall>k \<in> set json_fields. demo_request k = demo_request k"
    "length (open_pulls fresh_bootstrap (branch_name_of (PInt 7) demo_request)) \<le> 1"
    by (simp_all add: demo_defs open_pulls_def matching_pulls_def)
  have c: "?r1 = (fst ?r1, snd ?r1)" "?r2 = (fst ?r2, snd ?r2)"
    by simp_all
  from reconciliation_idempotent [OF h(1,2,3) c(1) h(2) h(4) c(2)] h(5) demo_branch
  show ?thesis by auto
qed

section \<open>The descriptor step\<close>

lemma get_contents_file:
  assumes "get_contents p b w = (Return (ContentFile path s), w1)"
  shows "path = p \<and> w1 = w\<lparr>trace := trace w @ [Get_contents p b]\<rparr>
         \<and> (\<exists>old. node_at w b p = Some (Blob old) \<and> s = Blob_sha old)"
  using assms
  by (auto simp add: get_contents_def api_def Let_def node_at_def
      split: option.splits node.splits)

lemma update_file_node:
  assumes "update_file path m t s b w1 = (Return (), w2)"
  shows "node_at w2 b path = Some (Blob t)"
  using assms
  by (auto simp add: update_file_def api_def Let_def node_at_def commit_file_def update_conv'
      split: option.splits node.splits if_splits)

lemma create_file_node:
  assumes "create_file path m t b w1 = (Return (), w2)"
  shows "node_at w2 b path = Some (Blob t)"
  using assms
  by (auto simp add: create_file_def api_def Let_def node_at_def commit_file_def update_conv'
      split: option.splits node.splits if_splits)

text \<open>
  C4, as amended. In the descriptor step of \<^verbatim>\<open>create_update_pr\<close>: if the read of
  \<^verbatim>\<open>requests/{branch}.json\<close> returns a single file, the file is updated with the
  descriptor's text and the sha that the read returned, which is the sha of the file's
  current text, and after a successful update the file holds the descriptor's text; if the
  read returns a directory listing, nothing is written and the step returns; if the read
  raises \<^verbatim>\<open>GithubException\<close> with status 404, the file is created with the descriptor's
  text; if the read or the update raises \<^verbatim>\<open>GithubException\<close> with another status, or
  the create raises \<^verbatim>\<open>GithubException\<close>, the method logs an error and exits with code
  1, leaving the repository as the failed call left it; an exception of the read, the update
  or the create that is not a \<^verbatim>\<open>GithubException\<close> is not caught and leaves the method.
\<close>

theorem descriptor_update_or_create:
  "(get_contents (descriptor_path b) b w = (Return (ContentFile path s), w1) \<and>
    update_file path (update_message request b) (descriptor_text request) s b w1 = (Return (), w2)
      \<longrightarrow> write_descriptor request b w = (Return (), w2)
          \<and> (\<exists>old. node_at w b (descriptor_path b) = Some (Blob old) \<and> s = Blob_sha old)
          \<and> node_at w2 b (descriptor_path b) = Some (Blob (descriptor_text request)))
   \<and> (get_contents (descriptor_path b) b w = (Return (ContentList entries), w1)
      \<longrightarrow> write_descriptor request b w = (Return (), w1))
   \<and> (get_contents (descriptor_path b) b w = (Raise (GithubException 404), w1) \<and>
      create_file (descriptor_path b) (create_message request b) (descriptor_text request) b
        (w1\<lparr>trace := trace w1 @ [Log Debug]\<rparr>) = (Return (), w2)
      \<longrightarrow> write_descriptor request b w = (Return (), w2)
          \<and> node_at w2 b (descriptor_path b) = Some (Blob (descriptor_text request)))
   \<and> (get_contents (descriptor_path b) b w = (Raise (GithubException st), w1) \<and> st \<noteq> 404
      \<longrightarrow> write_descriptor request b w = (Exit 1, w1\<lparr>trace := trace w1 @ [Log Error]\<rparr>))
   \<and> (get_contents (descriptor_path b) b w = (Return (ContentFile path s), w1) \<and>
      update_file path (update_message request b) (descriptor_text request) s b w1
        = (Raise (GithubException st), w2) \<and> st \<noteq> 404
      \<longrightarrow> write_descriptor request b w = (Exit 1, w2\<lparr>trace := trace w2 @ [Log Error]\<rparr>))
   \<and> (get_contents (descriptor_path b) b w = (Raise (GithubException 404), w1) \<and>
      create_file (descriptor_path b) (create_message request b) (descriptor_text request) b
        (w1\<lparr>trace := trace w1 @ [Log Debug]\<rparr>) = (Raise (GithubException st), w2)
      \<longrightarrow> write_descriptor request b w = (Exit 1, w2\<lparr>trace := trace w2 @ [Log Error]\<rparr>))
   \<and> (get_contents (descriptor_path b) b w = (Raise e, w1) \<and> \<not> is_GithubException e
      \<longrightarrow> write_descriptor request b w = (Raise e, w1))
   \<and> (get_contents (descriptor_path b) b w = (Return (ContentFile path s), w1) \<and>
      update_file path (update_message request b) (descriptor_text request) s b w1 = (Raise e, w2)
      \<and> \<not> is_GithubException e
      \<longrightarrow> write_descriptor request b w = (Raise e, w2))
   \<and> (get_contents (descriptor_path b) b w = (Raise (GithubException 404), w1) \<and>
      create_file (descriptor_path b) (create_message request b) (descriptor_text request) b
        (w1\<lparr>trace := trace w1 @ [Log Debug]\<rparr>) = (Raise e, w2) \<and> \<not> is_GithubException e
      \<longrightarrow> write_descriptor request b w = (Raise e, w2))"
proof -
  have a: "get_contents (descriptor_path b) b w = (Return (ContentFile path s), w1) \<and>
    update_file path (update_message request b) (descriptor_text request) s b w1 = (Return (), w2)
      \<longrightarrow> write_descriptor request b w = (Return (), w2)
          \<and> (\<exists>old. node_at w b (descriptor_path b) = Some (Blob old) \<and> s = Blob_sha old)
          \<and> node_at w2 b (descriptor_path b) = Some (Blob (descriptor_text request))"
  proof (intro impI, elim conjE)
    assume g: "get_contents (descriptor_path b) b w = (Return (ContentFile path s), w1)"
      and u: "update_file path (update_message request b) (descriptor_text request) s b w1
                = (Return (), w2)"
    from get_contents_file [OF g] have p: "path = descriptor_path b"
      and old: "\<exists>old. node_at w b (descriptor_path b) = Some (Blob old) \<and> s = Blob_sha old"
      by auto
    from g u have "write_descriptor request b w = (Return (), w2)"
      by (simp add: write_descriptor_def seq_def try_except_def ret_def Let_def
          descriptor_path_def update_message_def descriptor_text_def)
    with old update_file_node [OF u] p
    show "write_descriptor request b w = (Return (), w2)
            \<and> (\<exists>old. node_at w b (descriptor_path b) = Some (Blob old) \<and> s = Blob_sha old)
            \<and> node_at w2 b (descriptor_path b) = Some (Blob (descriptor_text request))"
      by simp
  qed
  have b: "get_contents (descriptor_path b) b w = (Return (ContentList entries), w1)
      \<longrightarrow> write_descriptor request b w = (Return (), w1)"
    by (simp add: write_descriptor_def seq_def try_except_def ret_def Let_def
        descriptor_path_def)
  have c: "get_contents (descriptor_path b) b w = (Raise (GithubException 404), w1) \<and>
      create_file (descriptor_path b) (create_message request b) (descriptor_text request) b
        (w1\<lparr>trace := trace w1 @ [Log Debug]\<rparr>) = (Return (), w2)
      \<longrightarrow> write_descriptor request b w = (Return (), w2)
          \<and> node_at w2 b (descriptor_path b) = Some (Blob (descriptor_text request))"
  proof (intro impI, elim conjE)
    assume g: "get_contents (descriptor_path b) b w = (Raise (GithubException 404), w1)"
      and c: "create_file (descriptor_path b) (create_message request b) (descriptor_text request)
          b (w1\<lparr>trace := trace w1 @ [Log Debug]\<rparr>) = (Return (), w2)"
    from g c have "write_descriptor request b w = (Return (), w2)"
      by (simp add: write_descriptor_def seq_def try_except_def ret_def Let_def log_def
          descriptor_path_def create_message_def descriptor_text_def)
    with create_file_node [OF c]
    show "write_descriptor request b w = (Return (), w2)
            \<and> node_at w2 b (descriptor_path b) = Some (Blob (descriptor_text request))"
      by simp
  qed
  have d: "get_contents (descriptor_path b) b w = (Raise (GithubException st), w1) \<and> st \<noteq> 404
      \<longrightarrow> write_descriptor request b w = (Exit 1, w1\<lparr>trace := trace w1 @ [Log Error]\<rparr>)"
    by (simp add: write_descriptor_def seq_def try_except_def ret_def Let_def log_def
        sys_exit_def descriptor_path_def)
  have e: "get_contents (descriptor_path b) b w = (Return (ContentFile path s), w1) \<and>
      update_file path (update_message request b) (descriptor_text request) s b w1
        = (Raise (GithubException st), w2) \<and> st \<noteq> 404
      \<longrightarrow> write_descriptor request b w = (Exit 1, w2\<lparr>trace := trace w2 @ [Log Error]\<rparr>)"
    by (simp add: write_descriptor_def seq_def try_except_def ret_def Let_def log_def
        sys_exit_def descriptor_path_def update_message_def descriptor_text_def)
  have f: "get_contents (descriptor_path b) b w = (Raise (GithubException 404), w1) \<and>
      create_file (descriptor_path b) (create_message request b) (descriptor_text request) b
        (w1\<lparr>trace := trace w1 @ [Log Debug]\<rparr>) = (Raise (GithubException st), w2)
      \<longrightarrow> write_descriptor request b w = (Exit 1, w2\<lparr>trace := trace w2 @ [Log Error]\<rparr>)"
    by (simp add: write_descriptor_def seq_def try_except_def ret_def Let_def log_def
        sys_exit_def descriptor_path_def create_message_def descriptor_text_def)
  have g: "get_contents (descriptor_path b) b w = (Raise e, w1) \<and> \<not> is_GithubException e
      \<longrightarrow> write_descriptor request b w = (Raise e, w1)"
    by (simp add: write_descriptor_def seq_def try_except_def ret_def Let_def
        descriptor_path_def)
  have h: "get_contents (descriptor_path b) b w = (Return (ContentFile path s), w1) \<and>
      update_file path (update_message request b) (descriptor_text request) s b w1 = (Raise e, w2)
      \<and> \<not> is_GithubException e
      \<longrightarrow> write_descriptor request b w = (Raise e, w2)"
    by (simp add: write_descriptor_def seq_def try_except_def ret_def Let_def
        descriptor_path_def update_message_def descriptor_text_def)
  have i: "get_contents (descriptor_path b) b w = (Raise (GithubException 404), w1) \<and>
      create_file (descriptor_path b) (create_message request b) (descriptor_text request) b
        (w1\<lparr>trace := trace w1 @ [Log Debug]\<rparr>) = (Raise e, w2) \<and> \<not> is_GithubException e
      \<longrightarrow> write_descriptor request b w = (Raise e, w2)"
    by (simp add: write_descriptor_def seq_def try_except_def ret_def Let_def log_def
        descriptor_path_def create_message_def descriptor_text_def)
  show ?thesis
    by (intro conjI) (rule a b c d e f g h i)+
qed

theorem descriptor_update_or_create_witness:
  "fst (write_descriptor demo_request ''REQ_7_demo'' file_bootstrap) = Return ()
   \<and> node_at (snd (write_descriptor demo_request ''REQ_7_demo'' file_bootstrap)) ''REQ_7_demo''
        ''requests/REQ_7_demo.json''
       = Some (Blob (Json_dumps [(''github_repo'', PStr ''demo''), (''product'', PStr ''DPS'')] 2))
   \<and> write_descriptor demo_request ''REQ_7_demo'' failing_bootstrap
       = (Exit 1, failing_bootstrap
            \<lparr>trace := [Get_contents ''requests/REQ_7_demo.json'' ''REQ_7_demo'', Log Error]\<rparr>)"
proof -
  let ?b = "''REQ_7_demo''"
  let ?p = "descriptor_path ?b"
  let ?s = "Blob_sha (Verbatim ''{}'')"
  let ?w1 = "snd (get_contents ?p ?b file_bootstrap)"
  let ?w2 = "snd (update_file ?p (update_message demo_request ?b) (descriptor_text demo_request)
                    ?s ?b ?w1)"
  have g: "get_contents ?p ?b file_bootstrap = (Return (ContentFile ?p ?s), ?w1)"
    by (simp add: run_defs demo_defs descriptor_path_def)
  have u: "update_file ?p (update_message demo_request ?b) (descriptor_text demo_request) ?s ?b ?w1
      = (Return (), ?w2)"
    by (simp add: run_defs demo_defs descriptor_path_def)
  have t: "descriptor_text demo_request
      = Json_dumps [(''github_repo'', PStr ''demo''), (''product'', PStr ''DPS'')] 2"
    by (simp add: descriptor_text_def run_defs demo_defs)
  let ?f1 = "failing_bootstrap\<lparr>trace := [Get_contents ?p ?b]\<rparr>"
  have f: "get_contents ?p ?b failing_bootstrap = (Raise (GithubException 500), ?f1)"
    by (simp add: run_defs demo_defs descriptor_path_def)
  note spec = descriptor_update_or_create
      [where b = ?b and path = ?p and s = ?s and request = demo_request]
  have updated: "write_descriptor demo_request ?b file_bootstrap = (Return (), ?w2)
      \<and> (\<exists>old. node_at file_bootstrap ?b ?p = Some (Blob old) \<and> ?s = Blob_sha old)
      \<and> node_at ?w2 ?b ?p = Some (Blob (descriptor_text demo_request))"
    by (rule spec [where w = file_bootstrap and ?w1.0 = ?w1 and ?w2.0 = ?w2,
          THEN conjunct1, rule_format]) (rule conjI [OF g u])
  have fatal: "write_descriptor demo_request ?b failing_bootstrap
      = (Exit 1, ?f1\<lparr>trace := trace ?f1 @ [Log Error]\<rparr>)"
    by (rule spec [where w = failing_bootstrap and ?w1.0 = ?f1 and st = 500,
          THEN conjunct2, THEN conjunct2, THEN conjunct2, THEN conjunct1, rule_format])
      (rule conjI [OF f], simp)
  from updated fatal show ?thesis
    by (simp add: t descriptor_path_def)
qed

text \<open>
  C4 as stated fails in two places. Where \<^verbatim>\<open>requests/REQ_7_demo.json\<close> is a directory
  the read succeeds, and yet the run of \<^verbatim>\<open>create_update_pr\<close> writes no file and does not
  exit. Where the read fails with a \<^verbatim>\<open>ConnectionError\<close>, which is neither a 404 nor any
  \<^verbatim>\<open>GithubException\<close>, the method does not exit with code 1: the exception leaves it.
\<close>

theorem descriptor_claim_counterexample:
  "fst (get_contents ''requests/REQ_7_demo.json'' ''REQ_7_demo''
          (snd (ensure_branch ''REQ_7_demo'' directory_bootstrap))) = Return (ContentList [])
   \<and> fst (create_update_pr demo_request directory_bootstrap) \<noteq> Exit 1
   \<and> written_texts (trace (snd (create_update_pr demo_request directory_bootstrap))) = []
   \<and> fst (get_contents ''requests/REQ_7_demo.json'' ''REQ_7_demo''
          (snd (ensure_branch ''REQ_7_demo'' unreachable_bootstrap))) = Raise ConnectionError
   \<and> fst (create_update_pr demo_request unreachable_bootstrap) = Raise ConnectionError"
  by (simp add: run_defs demo_defs written_texts_Cons)

text \<open>
  C10. When the branch step of \<^verbatim>\<open>create_update_pr\<close> has completed and the read of
  \<^verbatim>\<open>requests/{branch}.json\<close> returns a list (a directory listing, empty or not), and no
  later call fails, the method makes neither an update nor a create call: the next call after
  the read is the listing of the pull requests, the whole run writes no file text, the
  branches and the trees of the commits stay as they were after the branch step, and the
  method returns normally. PyGithub's \<^verbatim>\<open>get_contents\<close> returns a file object or a list,
  so the only falsy value it returns is the empty list.
\<close>

theorem directory_descriptor_skipped:
  assumes "request ''id'' = Some rid"
    and "ensure_branch (branch_name_of rid request) w = (Return (), w1)"
    and "get_contents (descriptor_path (branch_name_of rid request)) (branch_name_of rid request) w1
           = (Return (ContentList entries), w1')"
    and "faults w1 = (\<lambda>c k. None)"
  shows "\<exists>request' w2 evs. create_update_pr request w = (Return request', w2)
       \<and> trace w2 = trace w1 @
           [Get_contents (descriptor_path (branch_name_of rid request)) (branch_name_of rid request),
            Get_pulls ''open'' ''created'' ''main''
              (github_org w1 @ '':'' @ branch_name_of rid request)] @ evs
       \<and> written_texts (trace w2) = written_texts (trace w)
       \<and> branches w2 = branches w1 \<and> commits w2 = commits w1"
proof -
  let ?b = "branch_name_of rid request"
  let ?p = "descriptor_path ?b"
  have w1': "w1' = w1\<lparr>trace := trace w1 @ [Get_contents ?p ?b]\<rparr>"
    using assms(3)
    by (auto simp add: get_contents_def api_def Let_def split: option.splits node.splits)
  have wd: "write_descriptor request ?b w1 = (Return (), w1')"
    using assms(3)
    by (simp add: write_descriptor_def seq_def try_except_def ret_def Let_def descriptor_path_def)
  have blocks: "seq (ensure_branch ?b) (\<lambda>_. write_descriptor request ?b) w = (Return (), w1')"
    using assms(2) wd by (simp add: seq_def)
  have run: "create_update_pr request w = raise_or_find_pr request ?b w1'"
    by (rule create_update_pr_blocks [OF assms(1) blocks])
  have nf: "faults w1' = (\<lambda>c k. None)" using assms(4) w1' by simp
  have wt: "written_texts (trace w1) = written_texts (trace w)"
    using ensure_branch_written [of ?b w] assms(2) by simp
  show ?thesis
  proof (cases "open_pulls w1' ?b = []")
    case True
    from raise_pr_new [OF nf True, of request]
    obtain w2 where "raise_or_find_pr request ?b w1' =
           (Return (request(''request_github_pr_number'' \<mapsto> PInt (int (next_number w1')),
                        ''output_status'' \<mapsto> PStr ''New'',
                        ''request_github_pr_status'' \<mapsto> PStr ''Raised'')), w2)"
      and "trace w2 = trace w1' @
           [Get_pulls ''open'' ''created'' ''main'' (github_org w1' @ '':'' @ ?b),
            Log Debug, Log Info,
            Create_pull (''Project request for '' @ py_str (py_get request ''github_repo''))
                (''Project request raised for '' @ py_str (py_get request ''github_repo''))
                ?b ''main'',
            Enable_automerge (next_number w1') ''MERGE'']"
      and "branches w2 = branches w1'" and "commits w2 = commits w1'"
      by blast
    with run w1' wt show ?thesis
      by (simp add: written_texts_Cons)
  next
    case False
    from raise_pr_found [OF nf False, of request] run w1' wt show ?thesis
      by (simp add: written_texts_Cons)
  qed
qed

theorem directory_descriptor_skipped_witness:
  "(\<exists>request'. fst (create_update_pr demo_request directory_bootstrap) = Return request')
   \<and> written_texts (trace (snd (create_update_pr demo_request directory_bootstrap))) = []
   \<and> node_at (snd (create_update_pr demo_request directory_bootstrap)) ''REQ_7_demo''
        ''requests/REQ_7_demo.json'' = Some (Tree [])"
proof -
  let ?b = "branch_name_of (PInt 7) demo_request"
  let ?w1 = "snd (ensure_branch ?b directory_bootstrap)"
  let ?w1' = "snd (get_contents (descriptor_path ?b) ?b ?w1)"
  have id: "demo_request ''id'' = Some (PInt 7)"
    by (simp add: demo_request_def)
  have e: "ensure_branch ?b directory_bootstrap = (Return (), ?w1)"
    by (simp add: run_defs demo_defs)
  have g: "get_contents (descriptor_path ?b) ?b ?w1 = (Return (ContentList []), ?w1')"
    by (simp add: run_defs demo_defs descriptor_path_def)
  have nf: "faults ?w1 = (\<lambda>c k. None)"
    by (simp add: run_defs demo_defs)
  have st: "written_texts (trace directory_bootstrap) = []"
    "map_of (branches ?w1) ''REQ_7_demo'' = Some 0"
    "commits ?w1 0 ''requests/REQ_7_demo.json'' = Some (Tree [])"
    by (simp_all add: run_defs demo_defs)
  from directory_descriptor_skipped [OF id e g nf] st
  show ?thesis by (auto simp add: node_at_def)
qed

end
